theory Spec2Isabelle
  imports Main
begin

section \<open>Python values, exceptions and HTTP responses\<close>

text \<open>
  The values that flow through the decorators of \<^verbatim>\<open>djapy/v2/dec.py\<close> and
  \<^verbatim>\<open>djapy/data/dec2.py\<close>: what a view returns, what an attribute holds, what a
  response carries. \<open>PObject\<close> stands for any object the JSON encoder cannot serialise.
\<close>

datatype pyval =
    PNone
  | PBool bool
  | PInt int
  | PStr string
  | PList "pyval list"
  | PDict "(string \<times> pyval) list"
  | PObject nat

text \<open>Python truthiness, as \<^verbatim>\<open>if x:\<close> reads it.\<close>

fun truthy :: "pyval \<Rightarrow> bool" where
  "truthy PNone = False"
| "truthy (PBool b) = b"
| "truthy (PInt i) = (i \<noteq> 0)"
| "truthy (PStr s) = (s \<noteq> [])"
| "truthy (PList xs) = (xs \<noteq> [])"
| "truthy (PDict kvs) = (kvs \<noteq> [])"
| "truthy (PObject n) = True"

fun is_dict :: "pyval \<Rightarrow> bool" where
  "is_dict (PDict kvs) = True"
| "is_dict v = False"

text \<open>Whether \<^verbatim>\<open>json.dumps\<close> accepts the value.\<close>

fun serializable :: "pyval \<Rightarrow> bool" where
  "serializable (PList xs) = list_all serializable xs"
| "serializable (PDict kvs) = list_all (\<lambda>kv. serializable (snd kv)) kvs"
| "serializable (PObject n) = False"
| "serializable v = True"

text \<open>
  Exception classes. \<open>exception.__class__ == annotation\<close> compares classes by identity, so a
  class is its name; \<open>AppError\<close> are the application's own classes. pydantic's
  \<open>ValidationError\<close> cannot be subclassed, so \<open>isinstance(e, ValidationError)\<close> is equality
  of the class. Only subclasses of \<open>Exception\<close> are modelled.
\<close>

datatype exc_class =
    ValidationError
  | AttributeError
  | TypeError
  | ValueError
  | KeyError
  | AppError string

datatype exn = Exn (class_of: exc_class) (message_of: string)

datatype response = Response (status_code: int) (content: pyval)

text \<open>
  Django's \<^verbatim>\<open>JsonResponse(data, status=..., safe=...)\<close>: with \<open>safe\<close> a non-dict is a
  TypeError, an object the encoder does not know is a TypeError, and a status outside
  100..599 is a ValueError.
\<close>

definition JsonResponse :: "pyval \<Rightarrow> int \<Rightarrow> bool \<Rightarrow> exn + response" where
  "JsonResponse data status safe =
     (if safe \<and> \<not> is_dict data then Inl (Exn TypeError ''safe'')
      else if \<not> serializable data then Inl (Exn TypeError ''not JSON serializable'')
      else if status < 100 \<or> 599 < status then Inl (Exn ValueError ''HTTP status code'')
      else Inr (Response status data))"

section \<open>Requests, view functions and the names imported from absent modules\<close>

record request =
  request_method :: string
  is_authenticated :: bool
  payload :: pyval

type_synonym kwargs = "(string \<times> pyval) list"

text \<open>
  A value of a response-schema mapping: a \<open>Schema\<close> subclass (its \<open>model_validate\<close> followed
  by \<open>.dict()\<close>), any other class (its \<open>__name__\<close>, \<open>isinstance(\<cdot>, cls)\<close> and the call
  \<open>cls(\<cdot>)\<close>), a union of classes such as \<open>int | str\<close> (which \<open>isinstance\<close> accepts, which
  is not callable and has no \<open>__name__\<close>), or another annotation object that is not a class
  and that \<open>isinstance\<close> refuses, such as \<open>List[int]\<close>.
\<close>

datatype schema_or_type =
    SchemaClass string "pyval \<Rightarrow> exn + pyval"
  | PlainClass string "pyval \<Rightarrow> bool" "pyval \<Rightarrow> exn + pyval"
  | UnionType string
  | NotAClass string

text \<open>
  The class \<open>dict\<close> itself: as a bare annotation it is the one that has \<open>get\<close> and
  \<open>items\<close>, as unbound methods, whose call without a dict raises TypeError; on every other
  annotation the attribute is missing.
\<close>

definition is_dict_class :: "schema_or_type \<Rightarrow> bool" where
  "is_dict_class t = (case t of PlainClass n isinstance call \<Rightarrow> n = ''dict'' | _ \<Rightarrow> False)"

definition bare_attribute_error :: "schema_or_type \<Rightarrow> string \<Rightarrow> exn" where
  "bare_attribute_error t name =
     (if is_dict_class t then Exn TypeError name else Exn AttributeError name)"

text \<open>
  The \<open>return\<close> entry of \<open>view_func.__annotations__\<close>: missing, a dict from status code to
  schema or type, or a bare annotation. An entry of the dict whose value is \<open>None\<close> reads
  like a missing key (\<open>x_schema.get(status, None)\<close>), so it is left out of the list.
\<close>

datatype annotation =
    NoAnnotation
  | MappingAnn "(int \<times> schema_or_type) list"
  | BareAnn schema_or_type

datatype param_kind =
  POSITIONAL_ONLY | POSITIONAL_OR_KEYWORD | VAR_POSITIONAL | KEYWORD_ONLY | VAR_KEYWORD

record parameter =
  param_name :: string
  param_kind :: param_kind
  param_annotation :: schema_or_type

text \<open>What a view hands back: a bare value, or a \<open>(status, value)\<close> tuple.\<close>

datatype view_return = RBare pyval | RPair int pyval

text \<open>
  A view function: its name, signature, return annotation and body, and the attributes of
  its \<open>__dict__\<close> that the decorator reads or that \<open>functools.wraps\<close> copies onto the
  wrapper.
\<close>

record view_func =
  vf_name :: string
  vf_signature :: "parameter list"
  vf_return :: annotation
  vf_body :: "request \<Rightarrow> pyval list \<Rightarrow> kwargs \<Rightarrow> exn + view_return"
  vf_djapy_message_response :: "pyval option"
  vf_message_response :: "pyval option"
  vf_has_login_required :: "pyval option"
  vf_allowed_method :: "pyval option"

text \<open>
  The names \<^verbatim>\<open>djapy/v2/dec.py\<close> imports from \<^verbatim>\<open>djapy.v2.defaults\<close>,
  \<^verbatim>\<open>djapy.v2.parser\<close> and \<^verbatim>\<open>djapy.v2.response\<close>, which are not among the
  sources: they are parameters of the model.
\<close>

record env =
  DEFAULT_AUTH_REQUIRED_MESSAGE :: pyval
  DEFAULT_METHOD_NOT_ALLOWED_MESSAGE :: pyval
  DEFAULT_MESSAGE_ERROR :: pyval
  extract_and_validate_request_params :: "request \<Rightarrow> parameter list \<Rightarrow> kwargs \<Rightarrow> exn + kwargs"
  create_json_from_validation_error :: "exn \<Rightarrow> pyval"
  create_validation_error :: "string \<Rightarrow> string \<Rightarrow> string \<Rightarrow> exn"

text \<open>What a run of the wrapper did, in order.\<close>

datatype event =
    Extracted
  | Invoked
  | Validated
  | Logged exn
  | Called nat

section \<open>\<^verbatim>\<open>djapy/v2/dec.py\<close>: the error-handler registry\<close>

definition MAX_HANDLER_COUNT :: nat where
  "MAX_HANDLER_COUNT = 1"

text \<open>
  An attribute of the extension module: a function (the annotation of its parameter named
  \<open>exception\<close>, if it has one, and its body) or anything else.
\<close>

datatype exception_param = NoExceptionParam | ExceptionParam "exc_class option"

record errorhandler =
  eh_exception_param :: exception_param
  eh_call :: "request \<Rightarrow> exn \<Rightarrow> exn + pyval"

datatype module_attr = Function errorhandler | NotCallable pyval

text \<open>A module is the list of its names, as \<open>dir\<close> gives them, with their values.\<close>

type_synonym pymodule = "(string \<times> module_attr) list"

definition startswith :: "string \<Rightarrow> string \<Rightarrow> bool" where
  "startswith s prefix = (take (length prefix) s = prefix)"

text \<open>
  Lines 37-49. \<open>None\<close> is an import that raises. The result is the registry
  \<open>_errorhandler_functions\<close> and whether \<open>logging.warning\<close> was called.
\<close>

definition load_errorhandlers :: "pymodule option \<Rightarrow> module_attr list \<times> bool" where
  "load_errorhandlers imported =
     (case imported of
        None \<Rightarrow> ([], False)
      | Some m \<Rightarrow>
          (map snd (filter (\<lambda>(f, a). startswith f ''handler_'') m),
           length (map fst m) > MAX_HANDLER_COUNT))"

text \<open>
  \<open>handle_error\<close>, lines 52-64, from the entry with index \<open>i\<close> on. \<open>Inl\<close> is an exception
  that leaves \<open>handle_error\<close>; \<open>Inr None\<close> is the final \<open>return None\<close>.
\<close>

fun handle_error_from ::
  "env \<Rightarrow> request \<Rightarrow> exn \<Rightarrow> nat \<Rightarrow> module_attr list \<Rightarrow> (exn + response option) \<times> event list"
where
  "handle_error_from E req exc i [] = (Inr None, [])"
| "handle_error_from E req exc i (NotCallable v # fs) =
     (Inl (Exn TypeError ''not a callable object''), [])"
| "handle_error_from E req exc i (Function f # fs) =
     (case eh_exception_param f of
        NoExceptionParam \<Rightarrow> (Inl (Exn AttributeError ''annotation''), [])
      | ExceptionParam ann \<Rightarrow>
          if Some (class_of exc) = ann then
            (case eh_call f req exc of
               Inl e \<Rightarrow> (Inl e, [Called i])
             | Inr data \<Rightarrow>
                 if truthy data \<and> is_dict data then
                   (case JsonResponse data 400 True of
                      Inr r \<Rightarrow> (Inr (Some r), [Called i])
                    | Inl e \<Rightarrow>
                        if class_of e = TypeError then
                          (map_sum id Some (JsonResponse (DEFAULT_MESSAGE_ERROR E) 500 True),
                           [Called i, Logged e])
                        else (Inl e, [Called i]))
                 else
                   (let (r, evs) = handle_error_from E req exc (Suc i) fs
                    in (r, Called i # evs)))
          else handle_error_from E req exc (Suc i) fs)"

definition handle_error ::
  "env \<Rightarrow> module_attr list \<Rightarrow> request \<Rightarrow> exn \<Rightarrow> (exn + response option) \<times> event list"
where
  "handle_error E registry req exc = handle_error_from E req exc 0 registry"

text \<open>
  For the statements about the registry: an entry declares the class \<open>c\<close> when it is a
  function whose parameter \<open>exception\<close> is annotated with \<open>c\<close>; it has the parameter when
  it is a function with a parameter of that name, annotated or not.
\<close>

definition declares :: "exc_class \<Rightarrow> module_attr \<Rightarrow> bool" where
  "declares c a =
     (case a of Function f \<Rightarrow> eh_exception_param f = ExceptionParam (Some c) | NotCallable v \<Rightarrow> False)"

definition has_exception_param :: "module_attr \<Rightarrow> bool" where
  "has_exception_param a =
     (case a of Function f \<Rightarrow> eh_exception_param f \<noteq> NoExceptionParam | NotCallable v \<Rightarrow> False)"

section \<open>\<^verbatim>\<open>djapy/v2/dec.py\<close>: the decorator and the wrapped view\<close>

text \<open>\<open>getattr(obj, name, default)\<close> for an attribute that may be unset.\<close>

definition getattr_or :: "'a option \<Rightarrow> 'a \<Rightarrow> 'a" where
  "getattr_or attr dflt = (case attr of Some v \<Rightarrow> v | None \<Rightarrow> dflt)"

definition get_required_params :: "view_func \<Rightarrow> parameter list" where
  "get_required_params view_func =
     map snd (filter (\<lambda>(index, param). param_kind param = POSITIONAL_OR_KEYWORD \<and> index \<noteq> 0)
       (enumerate 0 (vf_signature view_func)))"

record config =
  login_required :: bool
  allowed_method :: pyval
  cfg_openapi :: bool
  cfg_openapi_tags :: "string list option"

text \<open>
  The wrapped view: the closure's \<open>view_func\<close> and the attributes set on
  \<open>_wrapped_view\<close>. \<open>required_params\<close> and \<open>schema\<close> are also the closure's
  \<open>required_params\<close> and \<open>x_schema\<close>. The two optional attributes are \<open>None\<close> when unset.
\<close>

record wrapped =
  view_func :: view_func
  djapy :: bool
  openapi :: bool
  openapi_tags :: "string list option"
  schema :: annotation
  djapy_message_response :: pyval
  required_params :: "parameter list"
  djapy_has_login_required :: "pyval option"
  djapy_allowed_method :: "pyval option"

text \<open>
  \<open>djapify(...)(view_func)\<close>, lines 82-146. \<open>@wraps(view_func)\<close> first copies the
  attributes of \<open>view_func\<close>; the assignments after the wrapper's definition overwrite them,
  the last two only under their \<open>if\<close>.
\<close>

definition djapify :: "config \<Rightarrow> view_func \<Rightarrow> wrapped" where
  "djapify cfg vf =
     \<lparr> view_func = vf,
       djapy = True,
       openapi = cfg_openapi cfg,
       openapi_tags = cfg_openapi_tags cfg,
       schema = vf_return vf,
       djapy_message_response = getattr_or (vf_djapy_message_response vf) (PDict []),
       required_params = get_required_params vf,
       djapy_has_login_required =
         (if login_required cfg then Some (PBool True) else vf_has_login_required vf),
       djapy_allowed_method =
         (if truthy (allowed_method cfg) then
            (case allowed_method cfg of
               PList ms \<Rightarrow> Some (PList ms)
             | PStr s \<Rightarrow> Some (PList [PStr s])
             | _ \<Rightarrow> vf_allowed_method vf)
          else vf_allowed_method vf) \<rparr>"

text \<open>
  \<open>x_schema.get(status, None)\<close>: only a dict has a usable \<open>get\<close>; \<open>None\<close> and a bare
  annotation have none, and on the bare class \<open>dict\<close> the call is a TypeError.
\<close>

definition x_schema_get :: "annotation \<Rightarrow> int \<Rightarrow> exn + schema_or_type option" where
  "x_schema_get x_schema status =
     (case x_schema of
        MappingAnn m \<Rightarrow> Inr (map_of m status)
      | NoAnnotation \<Rightarrow> Inl (Exn AttributeError ''get'')
      | BareAnn t \<Rightarrow> Inl (bare_attribute_error t ''get''))"

text \<open>Lines 102-105: a tuple is unpacked, a bare value has the status 200.\<close>

definition unpack :: "view_return \<Rightarrow> int \<times> pyval" where
  "unpack ret = (case ret of RPair s v \<Rightarrow> (s, v) | RBare v \<Rightarrow> (200, v))"

text \<open>
  Lines 102-115: from the view's return value to the response, or the exception raised on
  the way.
\<close>

definition resolve_response ::
  "env \<Rightarrow> annotation \<Rightarrow> view_return \<Rightarrow> (exn + response) \<times> event list"
where
  "resolve_response E x_schema ret =
     (let (status, resp) = unpack ret in
      case x_schema_get x_schema status of
        Inl e \<Rightarrow> (Inl e, [])
      | Inr None \<Rightarrow> (Inl (Exn AttributeError ''__name__''), [])
      | Inr (Some (SchemaClass n model_validate)) \<Rightarrow>
          (case model_validate resp of
             Inl e \<Rightarrow> (Inl e, [Validated])
           | Inr validated_data \<Rightarrow> (JsonResponse validated_data status True, [Validated]))
      | Inr (Some (PlainClass n isinstance call)) \<Rightarrow>
          if isinstance resp then
            (case call resp of
               Inl e \<Rightarrow> (Inl e, [])
             | Inr v \<Rightarrow> (JsonResponse v status False, []))
          else (Inl (create_validation_error E ''Response'' ''response'' (n @ ''_parsing'')), [])
      | Inr (Some (UnionType n)) \<Rightarrow> (Inl (Exn AttributeError ''__name__''), [])
      | Inr (Some (NotAClass n)) \<Rightarrow> (Inl (Exn TypeError ''isinstance''), []))"

text \<open>Lines 100-115, the body of the \<open>try\<close>.\<close>

definition try_body ::
  "env \<Rightarrow> wrapped \<Rightarrow> request \<Rightarrow> pyval list \<Rightarrow> kwargs \<Rightarrow> (exn + response) \<times> event list"
where
  "try_body E w req args view_kwargs =
     (case extract_and_validate_request_params E req (required_params w) view_kwargs of
        Inl e \<Rightarrow> (Inl e, [Extracted])
      | Inr data_kwargs \<Rightarrow>
          (case vf_body (view_func w) req args data_kwargs of
             Inl e \<Rightarrow> (Inl e, [Extracted, Invoked])
           | Inr ret \<Rightarrow>
               (let (r, evs) = resolve_response E (schema w) ret
                in (r, [Extracted, Invoked] @ evs))))"

text \<open>Lines 117-127, the \<open>except Exception\<close> block.\<close>

definition except_block ::
  "env \<Rightarrow> module_attr list \<Rightarrow> request \<Rightarrow> exn \<Rightarrow> (exn + response) \<times> event list"
where
  "except_block E registry req exc =
     (case handle_error E registry req exc of
        (Inl e, evs) \<Rightarrow> (Inl e, Logged exc # evs)
      | (Inr (Some error_response), evs) \<Rightarrow> (Inr error_response, Logged exc # evs)
      | (Inr None, evs) \<Rightarrow>
          if class_of exc = ValidationError then
            (JsonResponse (create_json_from_validation_error E exc) 400 False, Logged exc # evs)
          else (JsonResponse (DEFAULT_MESSAGE_ERROR E) 500 True, Logged exc # evs))"

text \<open>
  Lines 87-98 of \<open>_wrapped_view\<close>: the early returns before the \<open>try\<close>. \<open>None\<close> is
  falling through to the \<open>try\<close>; in \<open>Some r\<close>, \<open>r\<close> is what the \<open>return JsonResponse(...)\<close>
  gives, \<open>Inl\<close> when the constructor raises.
\<close>

definition gate :: "env \<Rightarrow> wrapped \<Rightarrow> request \<Rightarrow> (exn + response) option" where
  "gate E w req =
     (if (case djapy_has_login_required w of Some v \<Rightarrow> truthy v | None \<Rightarrow> False)
         \<and> \<not> is_authenticated req then
        Some (JsonResponse
          (getattr_or (vf_djapy_message_response (view_func w)) (DEFAULT_AUTH_REQUIRED_MESSAGE E))
          401 True)
      else if (case djapy_allowed_method w of
                 Some (PList ms) \<Rightarrow> PStr (request_method req) \<notin> set ms | _ \<Rightarrow> False) then
        Some (JsonResponse
          (getattr_or (vf_djapy_message_response (view_func w)) (DEFAULT_METHOD_NOT_ALLOWED_MESSAGE E))
          405 True)
      else if (case djapy_allowed_method w of
                 Some (PStr s) \<Rightarrow> request_method req \<noteq> s | _ \<Rightarrow> False) then
        Some (JsonResponse
          (getattr_or (vf_djapy_message_response (view_func w)) (DEFAULT_METHOD_NOT_ALLOWED_MESSAGE E))
          405 True)
      else None)"

text \<open>
  \<open>_wrapped_view\<close>, lines 86-127. \<open>Inl\<close> is an exception that leaves the wrapper for the
  host framework. The second component lists what ran.
\<close>

definition wrapped_view ::
  "env \<Rightarrow> module_attr list \<Rightarrow> wrapped \<Rightarrow> request \<Rightarrow> pyval list \<Rightarrow> kwargs
     \<Rightarrow> (exn + response) \<times> event list"
where
  "wrapped_view E registry w req args view_kwargs =
     (case gate E w req of
        Some r \<Rightarrow> (r, [])
      | None \<Rightarrow>
          (case try_body E w req args view_kwargs of
             (Inr r, evs) \<Rightarrow> (Inr r, evs)
           | (Inl exc, evs) \<Rightarrow>
               (let (r, evs') = except_block E registry req exc in (r, evs @ evs'))))"

section \<open>\<^verbatim>\<open>djapy/data/dec2.py\<close>: the earlier decorator\<close>

text \<open>
  The names \<^verbatim>\<open>dec2.py\<close> imports from \<^verbatim>\<open>djapy.data.defaults\<close>,
  \<^verbatim>\<open>djapy.data.parser\<close> and \<^verbatim>\<open>djapy.utils.prepare_exception\<close>, and the
  \<open>json()\<close> method of a validation error.
\<close>

record data_env =
  data_DEFAULT_AUTH_REQUIRED_MESSAGE :: pyval
  data_DEFAULT_METHOD_NOT_ALLOWED_MESSAGE :: pyval
  data_extract_and_validate_request_params :: "request \<Rightarrow> parameter list \<Rightarrow> exn + kwargs"
  log_exception :: "request \<Rightarrow> exn \<Rightarrow> string \<times> string"
  validation_error_json :: "exn \<Rightarrow> string"

text \<open>The first argument of \<open>djapify\<close>: a dict from status code to schema, or anything else.\<close>

datatype schema_arg = DictArg "(int \<times> schema_or_type) list" | OtherArg schema_or_type

record data_config =
  schema_or_view_func :: schema_arg
  data_login_required :: bool
  data_allowed_method :: pyval
  data_openapi :: bool
  data_openapi_tags :: "string list option"

record data_wrapped =
  data_view_func :: view_func
  data_schema :: "(int \<times> schema_or_type) list"
  data_required_params :: "parameter list"
  data_djapy :: bool
  data_openapi_attr :: bool
  data_openapi_tags_attr :: "string list option"
  data_djapy_message_response :: pyval
  data_has_login_required :: "pyval option"
  data_djapy_allowed_method :: "pyval option"

text \<open>\<open>getattr(module, name)\<close> with no default, on the outcome of the import.\<close>

definition getattr_module :: "pymodule option \<Rightarrow> string \<Rightarrow> exn + module_attr" where
  "getattr_module imported name =
     (case imported of
        None \<Rightarrow> Inl (Exn AttributeError name)
      | Some m \<Rightarrow>
          (case map_of m name of
             None \<Rightarrow> Inl (Exn AttributeError name)
           | Some a \<Rightarrow> Inr a))"

text \<open>
  \<open>djapify(schema_or_view_func, ...)\<close>, lines 43-51 and 94-107: the normalisation to a dict,
  the import inside \<open>try\<close>, the \<open>print(getattr(_imported_errorhandler, 'handler'))\<close>, and the
  decorator it returns.
\<close>

definition data_djapify ::
  "pymodule option \<Rightarrow> data_config \<Rightarrow> exn + (view_func \<Rightarrow> data_wrapped)"
where
  "data_djapify imported cfg =
     (let schema_dict =
            (case schema_or_view_func cfg of DictArg m \<Rightarrow> m | OtherArg t \<Rightarrow> [(200, t)]) in
      case getattr_module imported ''handler'' of
        Inl e \<Rightarrow> Inl e
      | Inr h \<Rightarrow>
          Inr (\<lambda>vf.
            \<lparr> data_view_func = vf,
              data_schema = schema_dict,
              data_required_params = get_required_params vf,
              data_djapy = True,
              data_openapi_attr = data_openapi cfg,
              data_openapi_tags_attr = data_openapi_tags cfg,
              data_djapy_message_response = getattr_or (vf_djapy_message_response vf) (PDict []),
              data_has_login_required =
                (if data_login_required cfg then Some (PBool True) else vf_has_login_required vf),
              data_djapy_allowed_method =
                (if truthy (data_allowed_method cfg) then Some (data_allowed_method cfg)
                 else vf_allowed_method vf) \<rparr>))"

text \<open>
  The call \<open>view_func(request, *args, **_data_kwargs, **kwargs)\<close> of line 76: a keyword
  that both dicts hold is a TypeError of the call, raised before the body runs.
\<close>

definition call_view ::
  "view_func \<Rightarrow> request \<Rightarrow> pyval list \<Rightarrow> kwargs \<Rightarrow> kwargs \<Rightarrow> exn + view_return"
where
  "call_view vf req args data_kwargs kw =
     (if list_ex (\<lambda>k. k \<in> set (map fst kw)) (map fst data_kwargs)
      then Inl (Exn TypeError ''multiple values for keyword argument'')
      else vf_body vf req args (data_kwargs @ kw))"

text \<open>The view's return value as \<^verbatim>\<open>dec2.py\<close> uses it: a tuple is not unpacked.\<close>

fun as_value :: "view_return \<Rightarrow> pyval" where
  "as_value (RBare v) = v"
| "as_value (RPair s v) = PList [PInt s, v]"

text \<open>
  \<open>_wrapped_view\<close> of \<^verbatim>\<open>dec2.py\<close>, lines 55-92. \<open>Inl\<close> is an exception that leaves
  the wrapper; \<open>Inr None\<close> is reaching the end of the function with no \<open>return\<close>.
\<close>

definition data_wrapped_view ::
  "data_env \<Rightarrow> data_wrapped \<Rightarrow> request \<Rightarrow> pyval list \<Rightarrow> kwargs \<Rightarrow> exn + response option"
where
  "data_wrapped_view D w req args kw =
     (if (case data_has_login_required w of Some v \<Rightarrow> truthy v | None \<Rightarrow> False)
         \<and> \<not> is_authenticated req then
        map_sum id Some (JsonResponse
          (getattr_or (vf_djapy_message_response (data_view_func w))
             (data_DEFAULT_AUTH_REQUIRED_MESSAGE D))
          401 True)
      else if (case data_djapy_allowed_method w of
                 Some (PList ms) \<Rightarrow> PStr (request_method req) \<notin> set ms | _ \<Rightarrow> False) then
        map_sum id Some (JsonResponse
          (getattr_or (vf_message_response (data_view_func w))
             (data_DEFAULT_METHOD_NOT_ALLOWED_MESSAGE D))
          405 True)
      else if (case data_djapy_allowed_method w of
                 Some (PStr s) \<Rightarrow> request_method req \<noteq> s | _ \<Rightarrow> False) then
        map_sum id Some (JsonResponse
          (getattr_or (vf_message_response (data_view_func w))
             (data_DEFAULT_METHOD_NOT_ALLOWED_MESSAGE D))
          405 True)
      else
        (case data_extract_and_validate_request_params D req (data_required_params w) of
           Inl e \<Rightarrow>
             if class_of e = ValidationError
             then Inr (Some (Response 400 (PStr (validation_error_json D e))))
             else Inl e
         | Inr data_kwargs \<Rightarrow>
             (case call_view (data_view_func w) req args data_kwargs kw of
                Inl e \<Rightarrow>
                  (let (error_message, display_message) = log_exception D req e in
                   map_sum id Some (JsonResponse
                     (PDict [(''message'', PStr display_message),
                             (''error_message'', PStr error_message),
                             (''alias'', PStr ''server_error'')])
                     500 True))
              | Inr ret \<Rightarrow>
                  (case map_of (data_schema w) 200 of
                     None \<Rightarrow> Inl (Exn TypeError ''issubclass'')
                   | Some (UnionType n) \<Rightarrow> Inl (Exn TypeError ''issubclass'')
                   | Some (NotAClass n) \<Rightarrow> Inl (Exn TypeError ''issubclass'')
                   | Some (SchemaClass n model_validate) \<Rightarrow>
                       (case model_validate (as_value ret) of
                          Inl e \<Rightarrow>
                            if class_of e = ValidationError
                            then Inr (Some (Response 400 (PStr (validation_error_json D e))))
                            else Inl e
                        | Inr validated_data \<Rightarrow>
                            map_sum id Some (JsonResponse validated_data 200 True))
                   | Some (PlainClass n isinstance call) \<Rightarrow>
                       (case call (as_value ret) of
                          Inl e \<Rightarrow> Inl e
                        | Inr v \<Rightarrow> map_sum id Some (JsonResponse v 200 False))))))"

section \<open>\<^verbatim>\<open>djapy/v2/openapi.py\<close>: the API document\<close>

text \<open>
  A Python dict with string keys is an association list in insertion order with distinct
  keys. \<open>d[k] = v\<close> replaces the value of a key in place and appends a new key;
  \<open>d.update(other)\<close> does so for every item of \<open>other\<close> in order.
\<close>

primrec setitem :: "('k \<times> 'v) list \<Rightarrow> 'k \<Rightarrow> 'v \<Rightarrow> ('k \<times> 'v) list" where
  "setitem [] k v = [(k, v)]"
| "setitem (p # ps) k v = (if fst p = k then (k, v) # ps else p # setitem ps k v)"

definition dict_update :: "('k \<times> 'v) list \<Rightarrow> ('k \<times> 'v) list \<Rightarrow> ('k \<times> 'v) list" where
  "dict_update d other = fold (\<lambda>kv acc. setitem acc (fst kv) (snd kv)) other d"

text \<open>\<open>d[k]\<close> on a value.\<close>

definition getitem :: "pyval \<Rightarrow> string \<Rightarrow> exn + pyval" where
  "getitem d k =
     (case d of
        PDict kvs \<Rightarrow> (case map_of kvs k of Some v \<Rightarrow> Inr v | None \<Rightarrow> Inl (Exn KeyError k))
      | _ \<Rightarrow> Inl (Exn TypeError ''subscript''))"

text \<open>\<open>str.lower\<close> on ASCII, and \<open>str\<close> of an integer.\<close>

definition lower :: "string \<Rightarrow> string" where
  "lower s =
     map (\<lambda>c. if 65 \<le> (of_char c :: nat) \<and> (of_char c :: nat) \<le> 90
               then char_of (of_char c + 32 :: nat) else c) s"

fun str_nat :: "nat \<Rightarrow> string" where
  "str_nat n =
     (if n < 10 then [char_of (48 + n)]
      else str_nat (n div 10) @ [char_of (48 + n mod 10)])"

definition str_int :: "int \<Rightarrow> string" where
  "str_int i = (if i < 0 then CHR ''-'' # str_nat (nat (- i)) else str_nat (nat i))"

text \<open>
  \<open>re.sub\<close> with the pattern \<^verbatim>\<open><int:(.+?)>\<close>, the group put in braces: at a position
  where \<^verbatim>\<open><int:\<close> starts, the group is one character and then the characters up to
  the next \<^verbatim>\<open>>\<close>, none of them a newline. \<open>until_gt\<close> splits at the next
  \<^verbatim>\<open>>\<close>; \<open>re_sub_from k\<close> first skips the \<open>k\<close> characters a match has consumed.
\<close>

fun until_gt :: "string \<Rightarrow> (string \<times> string) option" where
  "until_gt [] = None"
| "until_gt (c # cs) =
     (if c = CHR ''>'' then Some ([], cs)
      else if c = CHR 0x0A then None
      else map_option (\<lambda>(g, r). (c # g, r)) (until_gt cs))"

definition match_int :: "string \<Rightarrow> (string \<times> string) option" where
  "match_int s =
     (if startswith s ''<int:'' then
        (case drop 5 s of
           [] \<Rightarrow> None
         | c # cs \<Rightarrow>
             if c = CHR 0x0A then None
             else map_option (\<lambda>(g, r). (c # g, r)) (until_gt cs))
      else None)"

fun re_sub_from :: "nat \<Rightarrow> string \<Rightarrow> string" where
  "re_sub_from k [] = []"
| "re_sub_from (Suc k) (c # cs) = re_sub_from k cs"
| "re_sub_from 0 (c # cs) =
     (case match_int (c # cs) of
        Some (g, rest) \<Rightarrow> ''{'' @ g @ ''}'' @ re_sub_from (length cs - length rest) cs
      | None \<Rightarrow> c # re_sub_from 0 cs)"

text \<open>\<open>Path.make_path_name_from_url\<close>, lines 57-63, on \<open>str(url_pattern.pattern)\<close>.\<close>

definition make_path_name_from_url :: "string \<Rightarrow> string" where
  "make_path_name_from_url pattern = re_sub_from 0 pattern"

text \<open>
  The schema capability, \<open>create_model(name, **fields, __base__=Schema).schema(ref_template=...)\<close>
  of pydantic: the rendered dict, or the exception it raises.
\<close>

record openapi_env =
  model_schema :: "string \<Rightarrow> (string \<times> schema_or_type) list \<Rightarrow> exn + (string \<times> pyval) list"

text \<open>
  \<open>if "$defs" in prepared_schema: self.export_components.update(prepared_schema.pop("$defs"))\<close>.
  pydantic renders \<open>$defs\<close> as a dict; \<open>update\<close> with any other value is modelled as its
  TypeError.
\<close>

definition pop_defs ::
  "(string \<times> pyval) list \<Rightarrow> (string \<times> pyval) list
     \<Rightarrow> exn + ((string \<times> pyval) list \<times> (string \<times> pyval) list)"
where
  "pop_defs prepared_schema export_components =
     (case map_of prepared_schema ''$defs'' of
        None \<Rightarrow> Inr (prepared_schema, export_components)
      | Some (PDict defs) \<Rightarrow>
          Inr (filter (\<lambda>kv. fst kv \<noteq> ''$defs'') prepared_schema,
               dict_update export_components defs)
      | Some v \<Rightarrow> Inl (Exn TypeError ''update''))"

text \<open>
  \<open>Path.get_responses\<close>, lines 65-84: the loop over the items of the view's \<open>schema\<close>
  attribute, with the \<open>responses\<close> built so far and \<open>self.export_components\<close>.
\<close>

fun get_responses_loop ::
  "openapi_env \<Rightarrow> (int \<times> schema_or_type) list \<Rightarrow> (string \<times> pyval) list
     \<Rightarrow> (string \<times> pyval) list \<Rightarrow> exn + ((string \<times> pyval) list \<times> (string \<times> pyval) list)"
where
  "get_responses_loop cap [] responses export_components = Inr (responses, export_components)"
| "get_responses_loop cap ((status, t) # items) responses export_components =
     (let description = (if status = 200 then ''OK'' else ''Else 200'') in
      case model_schema cap ''openapi_response_model'' [(''response'', t)] of
        Inl e \<Rightarrow> Inl e
      | Inr prepared_schema \<Rightarrow>
          (case pop_defs prepared_schema export_components of
             Inl e \<Rightarrow> Inl e
           | Inr (prepared_schema', export_components') \<Rightarrow>
               (case getitem (PDict prepared_schema') ''properties'' of
                  Inl e \<Rightarrow> Inl e
                | Inr properties \<Rightarrow>
                    (case getitem properties ''response'' of
                       Inl e \<Rightarrow> Inl e
                     | Inr schema_content \<Rightarrow>
                         get_responses_loop cap items
                           (setitem responses (str_int status)
                              (PDict [(''description'', PStr description),
                                      (''content'', PDict [(''application/json'',
                                         PDict [(''schema'', schema_content)])])]))
                           export_components'))))"

definition get_responses ::
  "openapi_env \<Rightarrow> wrapped \<Rightarrow> (string \<times> pyval) list
     \<Rightarrow> exn + ((string \<times> pyval) list \<times> (string \<times> pyval) list)"
where
  "get_responses cap view export_components =
     (case schema view of
        MappingAnn items \<Rightarrow> get_responses_loop cap items [] export_components
      | NoAnnotation \<Rightarrow> Inl (Exn AttributeError ''items'')
      | BareAnn t \<Rightarrow> Inl (bare_attribute_error t ''items''))"

text \<open>\<open>Path.get_request_body\<close>, lines 41-55.\<close>

definition get_request_body ::
  "openapi_env \<Rightarrow> wrapped \<Rightarrow> (string \<times> pyval) list \<Rightarrow> exn + (pyval \<times> (string \<times> pyval) list)"
where
  "get_request_body cap view export_components =
     (case model_schema cap ''openapi_request_model''
             (map (\<lambda>param. (param_name param, param_annotation param)) (required_params view)) of
        Inl e \<Rightarrow> Inl e
      | Inr prepared_schema \<Rightarrow>
          (case pop_defs prepared_schema export_components of
             Inl e \<Rightarrow> Inl e
           | Inr (schema_content, export_components') \<Rightarrow>
               Inr (PDict [(''content'', PDict [(''application/json'',
                       PDict [(''schema'', PDict schema_content)])])],
                    export_components')))"

text \<open>The class \<open>Path\<close> and its constructor, lines 20-39.\<close>

record path_doc =
  path :: string
  methods :: pyval
  summary :: string
  responses :: "(string \<times> pyval) list"
  parameters :: "pyval list"
  export_components :: "(string \<times> pyval) list"
  export_definitions :: "(string \<times> pyval) list"
  request_body :: pyval

definition new_Path :: "openapi_env \<Rightarrow> string \<Rightarrow> wrapped \<Rightarrow> pyval \<Rightarrow> exn + path_doc" where
  "new_Path cap pattern callback methods' =
     (case get_responses cap callback [] of
        Inl e \<Rightarrow> Inl e
      | Inr (responses', components1) \<Rightarrow>
          (case get_request_body cap callback components1 of
             Inl e \<Rightarrow> Inl e
           | Inr (request_body', components2) \<Rightarrow>
               Inr \<lparr> path = make_path_name_from_url pattern,
                     methods = methods',
                     summary = ''Register and login user'',
                     responses = responses',
                     parameters = [],
                     export_components = components2,
                     export_definitions = [],
                     request_body = request_body' \<rparr>))"

text \<open>
  The keys of the dict comprehension of \<open>Path.dict\<close>: \<open>method.lower()\<close> for every \<open>method\<close>
  that iterating \<open>self.methods\<close> yields.
\<close>

fun lower_all :: "pyval list \<Rightarrow> exn + string list" where
  "lower_all [] = Inr []"
| "lower_all (PStr s # ms) = map_sum id (\<lambda>ks. lower s # ks) (lower_all ms)"
| "lower_all (m # ms) = Inl (Exn AttributeError ''lower'')"

definition method_keys :: "pyval \<Rightarrow> exn + string list" where
  "method_keys ms =
     (case ms of
        PList xs \<Rightarrow> lower_all xs
      | PStr s \<Rightarrow> Inr (map (\<lambda>c. lower [c]) s)
      | PDict kvs \<Rightarrow> Inr (map (\<lambda>kv. lower (fst kv)) kvs)
      | _ \<Rightarrow> Inl (Exn TypeError ''not iterable''))"

text \<open>\<open>Path.dict\<close>, lines 86-96; \<open>__name__\<close> of the callback is the view's, by \<open>wraps\<close>.\<close>

definition path_dict :: "wrapped \<Rightarrow> path_doc \<Rightarrow> exn + (string \<times> pyval) list" where
  "path_dict callback p =
     (let operation_id = vf_name (view_func callback);
          operation =
            PDict [(''summary'', PStr (summary p)),
                   (''operationId'', PStr operation_id),
                   (''responses'', PDict (responses p)),
                   (''parameters'', PList (parameters p)),
                   (''requestBody'', request_body p)] in
      case method_keys (methods p) of
        Inl e \<Rightarrow> Inl e
      | Inr keys \<Rightarrow> Inr (fold (\<lambda>k acc. setitem acc k operation) keys []))"

text \<open>
  The routing tree: a \<open>URLPattern\<close> has a pattern and a callback (\<open>Some w\<close> for a view that
  \<open>djapify\<close> wrapped, \<open>None\<close> for a view with none of its attributes); a \<open>URLResolver\<close> has
  \<open>url_patterns\<close> and the callback \<open>None\<close>.
\<close>

datatype url_node = URLPattern string "wrapped option" | URLResolver "url_node list"

text \<open>The class attributes of \<open>OpenAPI\<close> that \<open>generate_paths\<close> mutates.\<close>

record openapi_state =
  paths :: "(string \<times> pyval) list"
  components_schemas :: "(string \<times> pyval) list"
  definitions :: "(string \<times> pyval) list"

text \<open>
  \<open>OpenAPI.generate_paths\<close>, lines 148-159: \<open>generate_paths\<close> is the loop, \<open>generate_path\<close>
  its body for one node. The first component is the exception that ended the walk, if any;
  the state is returned as the walk left it.
\<close>

fun generate_paths :: "openapi_env \<Rightarrow> url_node list \<Rightarrow> openapi_state \<Rightarrow> exn option \<times> openapi_state"
and generate_path :: "openapi_env \<Rightarrow> url_node \<Rightarrow> openapi_state \<Rightarrow> exn option \<times> openapi_state"
where
  "generate_paths cap [] s = (None, s)"
| "generate_paths cap (n # ns) s =
     (case generate_path cap n s of
        (Some e, s') \<Rightarrow> (Some e, s')
      | (None, s') \<Rightarrow> generate_paths cap ns s')"
| "generate_path cap (URLResolver ns) s = generate_paths cap ns s"
| "generate_path cap (URLPattern pattern None) s = (None, s)"
| "generate_path cap (URLPattern pattern (Some callback)) s =
     (if djapy callback \<and> openapi callback then
        (case djapy_allowed_method callback of
           None \<Rightarrow> (Some (Exn AttributeError ''djapy_allowed_method''), s)
         | Some ms \<Rightarrow>
             (case new_Path cap pattern callback ms of
                Inl e \<Rightarrow> (Some e, s)
              | Inr p \<Rightarrow>
                  (let s1 = (if export_definitions p \<noteq> []
                             then s\<lparr>definitions := dict_update (definitions s) (export_definitions p)\<rparr>
                             else s);
                       s2 = (if export_components p \<noteq> []
                             then s1\<lparr>components_schemas :=
                                      dict_update (components_schemas s1) (export_components p)\<rparr>
                             else s1) in
                   if openapi callback then
                     (case path_dict callback p of
                        Inl e \<Rightarrow> (Some e, s2)
                      | Inr d \<Rightarrow> (None, s2\<lparr>paths := setitem (paths s2) (path p) (PDict d)\<rparr>))
                   else (None, s2))))
      else (None, s))"

text \<open>\<open>OpenAPI.dict\<close>, lines 161-169, with the class attributes of lines 114-119.\<close>

definition openapi_dict ::
  "openapi_env \<Rightarrow> url_node list \<Rightarrow> openapi_state \<Rightarrow> (exn + pyval) \<times> openapi_state"
where
  "openapi_dict cap url_patterns s =
     (case generate_paths cap url_patterns s of
        (Some e, s') \<Rightarrow> (Inl e, s')
      | (None, s') \<Rightarrow>
          (Inr (PDict [(''openapi'', PStr ''3.1.0''),
                       (''info'', PDict [(''title'', PStr ''My API''),
                                         (''version'', PStr ''1.0.0''),
                                         (''description'', PStr ''This API is a powerful'')]),
                       (''paths'', PDict (paths s')),
                       (''components'', PDict [(''schemas'', PDict (components_schemas s'))]),
                       (''$defs'', PDict (definitions s'))]),
           s'))"

definition initial_state :: openapi_state where
  "initial_state = \<lparr> paths = [], components_schemas = [], definitions = [] \<rparr>"

text \<open>
  For the proofs about the walk: the writes \<open>generate_paths\<close> makes to the three dicts, as
  a list that does not depend on the state. \<open>walk_writes\<close> and \<open>node_writes\<close> follow
  \<open>generate_paths\<close> and \<open>generate_path\<close> and collect the writes instead of making them;
  \<open>apply_write\<close> makes one. A state is valid when the keys of each dict are distinct, as
  the keys of a Python dict are.
\<close>

datatype target = Paths | Schemas | Definitions

type_synonym dict_write = "target \<times> string \<times> pyval"

definition apply_write :: "dict_write \<Rightarrow> openapi_state \<Rightarrow> openapi_state" where
  "apply_write w s =
     (case w of
        (Paths, k, v) \<Rightarrow> s\<lparr>paths := setitem (paths s) k v\<rparr>
      | (Schemas, k, v) \<Rightarrow> s\<lparr>components_schemas := setitem (components_schemas s) k v\<rparr>
      | (Definitions, k, v) \<Rightarrow> s\<lparr>definitions := setitem (definitions s) k v\<rparr>)"

definition writes_to :: "target \<Rightarrow> dict_write list \<Rightarrow> (string \<times> pyval) list" where
  "writes_to t ws = map snd (filter (\<lambda>w. fst w = t) ws)"

fun walk_writes :: "openapi_env \<Rightarrow> url_node list \<Rightarrow> exn option \<times> dict_write list"
and node_writes :: "openapi_env \<Rightarrow> url_node \<Rightarrow> exn option \<times> dict_write list"
where
  "walk_writes cap [] = (None, [])"
| "walk_writes cap (n # ns) =
     (case node_writes cap n of
        (Some e, ws) \<Rightarrow> (Some e, ws)
      | (None, ws) \<Rightarrow> (case walk_writes cap ns of (r, ws') \<Rightarrow> (r, ws @ ws')))"
| "node_writes cap (URLResolver ns) = walk_writes cap ns"
| "node_writes cap (URLPattern pattern None) = (None, [])"
| "node_writes cap (URLPattern pattern (Some callback)) =
     (if djapy callback \<and> openapi callback then
        (case djapy_allowed_method callback of
           None \<Rightarrow> (Some (Exn AttributeError ''djapy_allowed_method''), [])
         | Some ms \<Rightarrow>
             (case new_Path cap pattern callback ms of
                Inl e \<Rightarrow> (Some e, [])
              | Inr p \<Rightarrow>
                  (let ws = map (Pair Definitions) (export_definitions p)
                            @ map (Pair Schemas) (export_components p) in
                   case path_dict callback p of
                     Inl e \<Rightarrow> (Some e, ws)
                   | Inr d \<Rightarrow> (None, ws @ [(Paths, path p, PDict d)]))))
      else (None, []))"

definition valid_state :: "openapi_state \<Rightarrow> bool" where
  "valid_state s \<longleftrightarrow>
     distinct (map fst (paths s)) \<and> distinct (map fst (components_schemas s))
     \<and> distinct (map fst (definitions s))"

section \<open>Example inputs\<close>

definition example_env :: env where
  "example_env =
     \<lparr> DEFAULT_AUTH_REQUIRED_MESSAGE =
         PDict [(''message'', PStr ''You are not logged in''), (''alias'', PStr ''auth_required'')],
       DEFAULT_METHOD_NOT_ALLOWED_MESSAGE =
         PDict [(''message'', PStr ''Method not allowed''), (''alias'', PStr ''method_not_allowed'')],
       DEFAULT_MESSAGE_ERROR =
         PDict [(''message'', PStr ''Something went wrong''), (''alias'', PStr ''server_error'')],
       extract_and_validate_request_params = (\<lambda>req params view_kwargs. Inr view_kwargs),
       create_json_from_validation_error = (\<lambda>e. PList [PDict [(''type'', PStr (message_of e))]]),
       create_validation_error = (\<lambda>title loc type. Exn ValidationError type) \<rparr>"

text \<open>A schema with one field \<open>name\<close>, and the class \<open>int\<close> on the values used here.\<close>

definition UserSchema :: schema_or_type where
  "UserSchema =
     SchemaClass ''UserSchema''
       (\<lambda>v. case v of
              PDict kvs \<Rightarrow>
                (case map_of kvs ''name'' of
                   Some (PStr n) \<Rightarrow> Inr (PDict [(''name'', PStr n)])
                 | _ \<Rightarrow> Inl (Exn ValidationError ''name''))
            | _ \<Rightarrow> Inl (Exn ValidationError ''UserSchema''))"

definition int_class :: schema_or_type where
  "int_class =
     PlainClass ''int''
       (\<lambda>v. case v of PInt i \<Rightarrow> True | PBool b \<Rightarrow> True | _ \<Rightarrow> False)
       (\<lambda>v. case v of
              PInt i \<Rightarrow> Inr (PInt i)
            | PBool b \<Rightarrow> Inr (PInt (if b then 1 else 0))
            | PStr s \<Rightarrow> Inl (Exn ValueError ''invalid literal for int()'')
            | _ \<Rightarrow> Inl (Exn TypeError ''int()''))"

definition request_parameter :: parameter where
  "request_parameter =
     \<lparr> param_name = ''request'', param_kind = POSITIONAL_OR_KEYWORD,
       param_annotation =
         PlainClass ''HttpRequest'' (\<lambda>v. False) (\<lambda>v. Inl (Exn TypeError ''HttpRequest'')) \<rparr>"

text \<open>\<open>def get_user(request) -> {200: UserSchema}: return {"name": "ann"}\<close>.\<close>

definition get_user :: view_func where
  "get_user =
     \<lparr> vf_name = ''get_user'',
       vf_signature = [request_parameter],
       vf_return = MappingAnn [(200, UserSchema)],
       vf_body = (\<lambda>req args data. Inr (RBare (PDict [(''name'', PStr ''ann'')]))),
       vf_djapy_message_response = None,
       vf_message_response = None,
       vf_has_login_required = None,
       vf_allowed_method = None \<rparr>"

definition get_only :: config where
  "get_only =
     \<lparr> login_required = False, allowed_method = PStr ''GET'',
       cfg_openapi = True, cfg_openapi_tags = None \<rparr>"

definition anonymous :: "string \<Rightarrow> request" where
  "anonymous m = \<lparr> request_method = m, is_authenticated = False, payload = PNone \<rparr>"

text \<open>
  \<open>def handler_not_found(request, exception: NotFoundError): return {"message": "not found"}\<close>
  in a module \<^verbatim>\<open>djapy_ext/errorhandler.py\<close> that defines nothing else, with the
  names \<open>dir\<close> lists for it.
\<close>

definition handler_not_found :: errorhandler where
  "handler_not_found =
     \<lparr> eh_exception_param = ExceptionParam (Some (AppError ''NotFoundError'')),
       eh_call = (\<lambda>req e. Inr (PDict [(''message'', PStr ''not found'')])) \<rparr>"

definition errorhandler_module :: pymodule where
  "errorhandler_module =
     [(''__builtins__'', NotCallable (PObject 0)),
      (''__cached__'', NotCallable (PStr ''errorhandler.pyc'')),
      (''__doc__'', NotCallable PNone),
      (''__file__'', NotCallable (PStr ''errorhandler.py'')),
      (''__loader__'', NotCallable (PObject 1)),
      (''__name__'', NotCallable (PStr ''djapy_ext.errorhandler'')),
      (''__package__'', NotCallable (PStr ''djapy_ext'')),
      (''__spec__'', NotCallable (PObject 2)),
      (''handler_not_found'', Function handler_not_found)]"

text \<open>\<open>def handler_not_found(request, exc: NotFoundError)\<close>: no parameter named \<open>exception\<close>.\<close>

definition handler_exc :: errorhandler where
  "handler_exc =
     \<lparr> eh_exception_param = NoExceptionParam,
       eh_call = (\<lambda>req e. Inr (PDict [(''message'', PStr ''not found'')])) \<rparr>"

text \<open>\<open>def find_user(request) -> {200: UserSchema}: raise NotFoundError("no user")\<close>.\<close>

definition find_user :: view_func where
  "find_user = get_user\<lparr> vf_name := ''find_user'',
     vf_body := (\<lambda>req args data. Inl (Exn (AppError ''NotFoundError'') ''no user'')) \<rparr>"

text \<open>\<open>def count(request): return "abc"\<close>, for \<open>@djapify(int)\<close> of \<^verbatim>\<open>dec2.py\<close>.\<close>

definition count_view :: view_func where
  "count_view = get_user\<lparr> vf_name := ''count'', vf_return := NoAnnotation,
     vf_body := (\<lambda>req args data. Inr (RBare (PStr ''abc''))) \<rparr>"

definition example_data_env :: data_env where
  "example_data_env =
     \<lparr> data_DEFAULT_AUTH_REQUIRED_MESSAGE = DEFAULT_AUTH_REQUIRED_MESSAGE example_env,
       data_DEFAULT_METHOD_NOT_ALLOWED_MESSAGE = DEFAULT_METHOD_NOT_ALLOWED_MESSAGE example_env,
       data_extract_and_validate_request_params = (\<lambda>req params. Inr []),
       log_exception = (\<lambda>req e. (message_of e, ''Something went wrong'')),
       validation_error_json = message_of \<rparr>"

definition int_config :: data_config where
  "int_config =
     \<lparr> schema_or_view_func = OtherArg int_class, data_login_required = False,
       data_allowed_method = PStr ''GET'', data_openapi = False, data_openapi_tags = None \<rparr>"

text \<open>
  \<open>def status_view(request) -> {200: UserSchema}: return st, {"name": "ann"}\<close>, and
  \<open>def handler_attribute_error(request, exception: AttributeError)\<close>.
\<close>

definition status_view :: "int \<Rightarrow> view_func" where
  "status_view st = get_user\<lparr> vf_name := ''status_view'',
     vf_body := (\<lambda>req args data. Inr (RPair st (PDict [(''name'', PStr ''ann'')]))) \<rparr>"

definition handler_attribute_error :: errorhandler where
  "handler_attribute_error =
     \<lparr> eh_exception_param = ExceptionParam (Some AttributeError),
       eh_call = (\<lambda>req e. Inr (PDict [(''message'', PStr ''bad attribute'')])) \<rparr>"

text \<open>
  A schema capability that renders a model as an object: a field of a schema class as a
  reference, with the referenced definition under \<open>$defs\<close>, and a field of a builtin class
  inline. Then a view with a parameter, and a routing tree with two wrapped views, one of
  them under an included resolver.
\<close>

definition field_schema :: "schema_or_type \<Rightarrow> pyval" where
  "field_schema t =
     (case t of
        SchemaClass n v \<Rightarrow> PDict [(''$ref'', PStr (''#/components/schemas/'' @ n))]
      | PlainClass n i c \<Rightarrow> PDict [(''type'', PStr (if n = ''int'' then ''integer'' else ''string''))]
      | UnionType n \<Rightarrow> PDict []
      | NotAClass n \<Rightarrow> PDict [])"

definition field_defs :: "schema_or_type \<Rightarrow> (string \<times> pyval) list" where
  "field_defs t =
     (case t of
        SchemaClass n v \<Rightarrow> [(n, PDict [(''title'', PStr n), (''type'', PStr ''object'')])]
      | _ \<Rightarrow> [])"

definition example_cap :: openapi_env where
  "example_cap =
     \<lparr> model_schema = (\<lambda>name fields.
         Inr ([(''properties'', PDict (map (\<lambda>f. (fst f, field_schema (snd f))) fields)),
               (''title'', PStr name),
               (''type'', PStr ''object'')]
              @ (case concat (map (\<lambda>f. field_defs (snd f)) fields) of
                   [] \<Rightarrow> []
                 | d # ds \<Rightarrow> [(''$defs'', PDict (d # ds))]))) \<rparr>"

definition get_user_by_id :: view_func where
  "get_user_by_id = get_user\<lparr> vf_name := ''get_user_by_id'',
     vf_signature := [request_parameter,
       \<lparr> param_name = ''id'', param_kind = POSITIONAL_OR_KEYWORD, param_annotation = int_class \<rparr>] \<rparr>"

definition example_urls :: "url_node list" where
  "example_urls =
     [URLPattern ''users/<int:id>/'' (Some (djapify get_only get_user_by_id)),
      URLResolver [URLPattern ''admin/'' None,
                   URLPattern ''users/'' (Some (djapify get_only get_user))]]"

section \<open>The gates of the wrapped view\<close>

lemma JsonResponse_dict:
  "serializable (PDict kvs) \<Longrightarrow> 100 \<le> st \<Longrightarrow> st \<le> 599 \<Longrightarrow>
   JsonResponse (PDict kvs) st safe = Inr (Response st (PDict kvs))"
  by (simp add: JsonResponse_def)

lemma djapify_login_required:
  "login_required cfg \<Longrightarrow> djapy_has_login_required (djapify cfg vf) = Some (PBool True)"
  by (simp add: djapify_def)

lemma djapify_allowed_list:
  "allowed_method cfg = PList ms \<Longrightarrow> ms \<noteq> [] \<Longrightarrow>
   djapy_allowed_method (djapify cfg vf) = Some (PList ms)"
  by (simp add: djapify_def)

lemma djapify_allowed_str:
  "allowed_method cfg = PStr s \<Longrightarrow> s \<noteq> [] \<Longrightarrow>
   djapy_allowed_method (djapify cfg vf) = Some (PList [PStr s])"
  by (simp add: djapify_def)

lemma djapify_view_func [simp]: "view_func (djapify cfg vf) = vf"
  by (simp add: djapify_def)

lemma JsonResponse_json_dict:
  "is_dict m \<Longrightarrow> serializable m \<Longrightarrow> 100 \<le> st \<Longrightarrow> st \<le> 599 \<Longrightarrow>
   JsonResponse m st safe = Inr (Response st m)"
  by (simp add: JsonResponse_def)

text \<open>
  C2, as stated, fails: the 401 return is before the \<open>try\<close>, so for a view whose
  \<open>djapy_message_response\<close> is the string \<open>'nope'\<close> the \<open>TypeError\<close> of
  \<open>JsonResponse('nope', status=401)\<close> leaves the wrapper and no 401 result is returned.
\<close>

theorem login_required_message_counterexample:
  "wrapped_view example_env []
     (djapify (get_only\<lparr>login_required := True\<rparr>)
        (get_user\<lparr>vf_djapy_message_response := Some (PStr ''nope'')\<rparr>))
     (anonymous ''GET'') [] []
   = (Inl (Exn TypeError ''safe''), [])"
  by (simp add: wrapped_view_def gate_def djapify_def get_only_def get_user_def anonymous_def
      getattr_or_def JsonResponse_def)

text \<open>
  C2, amended. A handler decorated with \<open>login_required = True\<close> answers an unauthenticated
  request, whatever its method, with what \<open>JsonResponse(message, status=401)\<close> gives for
  the configured or default message, and nothing else runs: no parameter extraction, no
  handler body, no validation, no logging. Whenever that message is a JSON-serialisable
  dict, the wrapper returns the response with status 401 and the message as its body.
\<close>

theorem login_required_unauthenticated_401:
  assumes "login_required cfg" and "\<not> is_authenticated req"
  shows "wrapped_view E registry (djapify cfg vf) req args kw =
           (JsonResponse (getattr_or (vf_djapy_message_response vf)
              (DEFAULT_AUTH_REQUIRED_MESSAGE E)) 401 True, [])
         \<and> (is_dict (getattr_or (vf_djapy_message_response vf) (DEFAULT_AUTH_REQUIRED_MESSAGE E))
            \<and> serializable
                (getattr_or (vf_djapy_message_response vf) (DEFAULT_AUTH_REQUIRED_MESSAGE E))
            \<longrightarrow> wrapped_view E registry (djapify cfg vf) req args kw
                  = (Inr (Response 401 (getattr_or (vf_djapy_message_response vf)
                       (DEFAULT_AUTH_REQUIRED_MESSAGE E))), []))"
proof -
  have g: "gate E (djapify cfg vf) req =
             Some (JsonResponse (getattr_or (vf_djapy_message_response vf)
               (DEFAULT_AUTH_REQUIRED_MESSAGE E)) 401 True)"
    using assms by (simp add: gate_def djapify_login_required)
  then have w: "wrapped_view E registry (djapify cfg vf) req args kw =
           (JsonResponse (getattr_or (vf_djapy_message_response vf)
              (DEFAULT_AUTH_REQUIRED_MESSAGE E)) 401 True, [])"
    by (simp add: wrapped_view_def)
  show ?thesis
    using w by (simp add: JsonResponse_json_dict)
qed

theorem login_required_unauthenticated_401_witness:
  "login_required (get_only\<lparr>login_required := True\<rparr>)
   \<and> \<not> is_authenticated (anonymous ''GET'')
   \<and> is_dict (getattr_or (vf_djapy_message_response get_user)
        (DEFAULT_AUTH_REQUIRED_MESSAGE example_env))
   \<and> serializable (getattr_or (vf_djapy_message_response get_user)
        (DEFAULT_AUTH_REQUIRED_MESSAGE example_env))
   \<and> wrapped_view example_env [] (djapify (get_only\<lparr>login_required := True\<rparr>) get_user)
        (anonymous ''GET'') [] []
       = (Inr (Response 401
            (PDict [(''message'', PStr ''You are not logged in''),
                    (''alias'', PStr ''auth_required'')])), [])"
proof -
  let ?cfg = "get_only\<lparr>login_required := True\<rparr>"
  let ?m = "getattr_or (vf_djapy_message_response get_user)
              (DEFAULT_AUTH_REQUIRED_MESSAGE example_env)"
  have a: "login_required ?cfg" by simp
  have b: "\<not> is_authenticated (anonymous ''GET'')" by (simp add: anonymous_def)
  have m: "?m = PDict [(''message'', PStr ''You are not logged in''),
                       (''alias'', PStr ''auth_required'')]"
    by (simp add: getattr_or_def get_user_def example_env_def)
  have c: "is_dict ?m" and d: "serializable ?m" by (simp_all add: m)
  have "wrapped_view example_env [] (djapify ?cfg get_user) (anonymous ''GET'') [] []
        = (Inr (Response 401 ?m), [])"
    using login_required_unauthenticated_401 [OF a b, of example_env "[]" get_user "[]" "[]"] c d
    by blast
  with a b c d m show ?thesis by simp
qed

text \<open>
  C1, as stated, fails: the login check is the first statement of the wrapper, so a POST
  without a login to a handler that allows only GET and requires a login is answered with
  401, not with 405. And the 405 return is before the \<open>try\<close>: for a view whose
  \<open>djapy_message_response\<close> is the string \<open>'nope'\<close> the \<open>TypeError\<close> of \<open>JsonResponse\<close>
  leaves the wrapper and no 405 result is returned.
\<close>

theorem method_check_first_counterexample:
  "wrapped_view example_env []
     (djapify \<lparr> login_required = True, allowed_method = PList [PStr ''GET''],
                cfg_openapi = True, cfg_openapi_tags = None \<rparr> get_user)
     (anonymous ''POST'') [] []
   = (Inr (Response 401
        (PDict [(''message'', PStr ''You are not logged in''),
                (''alias'', PStr ''auth_required'')])), [])
   \<and> wrapped_view example_env []
       (djapify get_only (get_user\<lparr>vf_djapy_message_response := Some (PStr ''nope'')\<rparr>))
       (anonymous ''POST'') [] []
     = (Inl (Exn TypeError ''safe''), [])"
  by (simp add: wrapped_view_def gate_def djapify_def anonymous_def example_env_def
      get_user_def get_only_def getattr_or_def JsonResponse_def)

text \<open>
  C1, amended. For a wrapped handler whose \<open>djapy_allowed_method\<close> is a list and a request
  whose method is not in it, the wrapper returns before the \<open>try\<close> and nothing else runs:
  with what \<open>JsonResponse(message, status=401)\<close> gives when the handler requires a login and
  the request has none (the login check comes first), and otherwise with what
  \<open>JsonResponse(message, status=405)\<close> gives, for the configured or default message.
  Whenever the message is a JSON-serialisable dict, the wrapper returns the response with
  that status, 401 in the first case and 405 in the second, and the message as its body.
\<close>

theorem method_not_allowed_405:
  assumes "djapy_allowed_method w = Some (PList ms)" and "PStr (request_method req) \<notin> set ms"
  shows "wrapped_view E registry w req args kw =
           (if (case djapy_has_login_required w of Some v \<Rightarrow> truthy v | None \<Rightarrow> False)
               \<and> \<not> is_authenticated req
            then (JsonResponse (getattr_or (vf_djapy_message_response (view_func w))
                    (DEFAULT_AUTH_REQUIRED_MESSAGE E)) 401 True, [])
            else (JsonResponse (getattr_or (vf_djapy_message_response (view_func w))
                    (DEFAULT_METHOD_NOT_ALLOWED_MESSAGE E)) 405 True, []))
         \<and> ((case djapy_has_login_required w of Some v \<Rightarrow> truthy v | None \<Rightarrow> False)
              \<and> \<not> is_authenticated req
              \<and> is_dict (getattr_or (vf_djapy_message_response (view_func w))
                    (DEFAULT_AUTH_REQUIRED_MESSAGE E))
              \<and> serializable (getattr_or (vf_djapy_message_response (view_func w))
                    (DEFAULT_AUTH_REQUIRED_MESSAGE E))
            \<longrightarrow> wrapped_view E registry w req args kw
                  = (Inr (Response 401 (getattr_or (vf_djapy_message_response (view_func w))
                       (DEFAULT_AUTH_REQUIRED_MESSAGE E))), []))
         \<and> (\<not> ((case djapy_has_login_required w of Some v \<Rightarrow> truthy v | None \<Rightarrow> False)
                  \<and> \<not> is_authenticated req)
              \<and> is_dict (getattr_or (vf_djapy_message_response (view_func w))
                    (DEFAULT_METHOD_NOT_ALLOWED_MESSAGE E))
              \<and> serializable (getattr_or (vf_djapy_message_response (view_func w))
                    (DEFAULT_METHOD_NOT_ALLOWED_MESSAGE E))
            \<longrightarrow> wrapped_view E registry w req args kw
                  = (Inr (Response 405 (getattr_or (vf_djapy_message_response (view_func w))
                       (DEFAULT_METHOD_NOT_ALLOWED_MESSAGE E))), []))"
proof -
  have w: "wrapped_view E registry w req args kw =
           (if (case djapy_has_login_required w of Some v \<Rightarrow> truthy v | None \<Rightarrow> False)
               \<and> \<not> is_authenticated req
            then (JsonResponse (getattr_or (vf_djapy_message_response (view_func w))
                    (DEFAULT_AUTH_REQUIRED_MESSAGE E)) 401 True, [])
            else (JsonResponse (getattr_or (vf_djapy_message_response (view_func w))
                    (DEFAULT_METHOD_NOT_ALLOWED_MESSAGE E)) 405 True, []))"
    using assms by (simp add: wrapped_view_def gate_def)
  show ?thesis
    unfolding w by (simp add: JsonResponse_json_dict)
qed

theorem method_not_allowed_405_witness:
  "djapy_allowed_method (djapify get_only get_user) = Some (PList [PStr ''GET''])
   \<and> PStr (request_method (anonymous ''POST'')) \<notin> set [PStr ''GET'']
   \<and> is_dict (getattr_or (vf_djapy_message_response (view_func (djapify get_only get_user)))
        (DEFAULT_METHOD_NOT_ALLOWED_MESSAGE example_env))
   \<and> serializable (getattr_or (vf_djapy_message_response (view_func (djapify get_only get_user)))
        (DEFAULT_METHOD_NOT_ALLOWED_MESSAGE example_env))
   \<and> wrapped_view example_env [] (djapify get_only get_user) (anonymous ''POST'') [] []
       = (Inr (Response 405
            (PDict [(''message'', PStr ''Method not allowed''),
                    (''alias'', PStr ''method_not_allowed'')])), [])"
proof -
  let ?w = "djapify get_only get_user"
  let ?m = "getattr_or (vf_djapy_message_response (view_func ?w))
              (DEFAULT_METHOD_NOT_ALLOWED_MESSAGE example_env)"
  have a: "djapy_allowed_method ?w = Some (PList [PStr ''GET''])"
    by (simp add: djapify_allowed_str get_only_def)
  have b: "PStr (request_method (anonymous ''POST'')) \<notin> set [PStr ''GET'']"
    by (simp add: anonymous_def)
  have c: "\<not> ((case djapy_has_login_required ?w of Some v \<Rightarrow> truthy v | None \<Rightarrow> False)
               \<and> \<not> is_authenticated (anonymous ''POST''))"
    by (simp add: djapify_def get_only_def get_user_def)
  have m: "?m = PDict [(''message'', PStr ''Method not allowed''),
                       (''alias'', PStr ''method_not_allowed'')]"
    by (simp add: getattr_or_def get_user_def example_env_def)
  have d: "is_dict ?m" and e: "serializable ?m"
    by (simp_all add: getattr_or_def get_user_def example_env_def)
  have "wrapped_view example_env [] ?w (anonymous ''POST'') [] [] = (Inr (Response 405 ?m), [])"
    using method_not_allowed_405 [OF a b, of example_env "[]" "[]" "[]"] c d e by blast
  with a b d e m show ?thesis by simp
qed

section \<open>The attribute \<open>djapy_allowed_method\<close>\<close>

text \<open>
  C10, as stated, fails: with an empty \<open>allowed_method\<close> the decorator attaches nothing, so
  the attribute of a wrapped plain function is absent, not a list; and over a view that
  already carries a string attribute (\<^verbatim>\<open>dec2.py\<close> attaches the string as it is) the
  string stays, which the string comparison of the wrapper then reads.
\<close>

theorem allowed_method_list_counterexample:
  "djapy_allowed_method (djapify (get_only\<lparr>allowed_method := PList []\<rparr>) get_user) = None
   \<and> djapy_allowed_method
        (djapify (get_only\<lparr>allowed_method := PList []\<rparr>)
           (get_user\<lparr>vf_allowed_method := Some (PStr ''GET'')\<rparr>)) = Some (PStr ''GET'')"
  by (simp add: djapify_def get_only_def get_user_def)

text \<open>
  C10, amended. What the decorator attaches is a list: a non-empty list as it is, a
  non-empty string as the one-element list of it. With an empty \<open>allowed_method\<close>, or one
  that is neither a list nor a string, it attaches nothing and the attribute is what the
  view function carried. So for a view function that carried none, the attribute is absent
  or a list and never a string: the string comparison of the wrapper is not reached.
\<close>

theorem allowed_method_normalised:
  "(\<forall>s. allowed_method cfg = PStr s \<and> s \<noteq> [] \<longrightarrow>
        djapy_allowed_method (djapify cfg vf) = Some (PList [PStr s]))
   \<and> (\<forall>ms. allowed_method cfg = PList ms \<and> ms \<noteq> [] \<longrightarrow>
        djapy_allowed_method (djapify cfg vf) = Some (PList ms))
   \<and> (\<not> truthy (allowed_method cfg)
        \<or> ((\<forall>ms. allowed_method cfg \<noteq> PList ms) \<and> (\<forall>s. allowed_method cfg \<noteq> PStr s))
       \<longrightarrow> djapy_allowed_method (djapify cfg vf) = vf_allowed_method vf)
   \<and> (vf_allowed_method vf = None \<longrightarrow>
        (djapy_allowed_method (djapify cfg vf) = None
         \<or> (\<exists>ms. djapy_allowed_method (djapify cfg vf) = Some (PList ms)))
        \<and> (\<forall>s. djapy_allowed_method (djapify cfg vf) \<noteq> Some (PStr s)))"
proof -
  have str: "\<forall>s. allowed_method cfg = PStr s \<and> s \<noteq> [] \<longrightarrow>
      djapy_allowed_method (djapify cfg vf) = Some (PList [PStr s])"
    by (simp add: djapify_allowed_str)
  have lst: "\<forall>ms. allowed_method cfg = PList ms \<and> ms \<noteq> [] \<longrightarrow>
      djapy_allowed_method (djapify cfg vf) = Some (PList ms)"
    by (simp add: djapify_allowed_list)
  have unset: "\<not> truthy (allowed_method cfg)
        \<or> ((\<forall>ms. allowed_method cfg \<noteq> PList ms) \<and> (\<forall>s. allowed_method cfg \<noteq> PStr s))
       \<longrightarrow> djapy_allowed_method (djapify cfg vf) = vf_allowed_method vf"
    by (cases "allowed_method cfg") (simp_all add: djapify_def)
  have plain: "vf_allowed_method vf = None \<longrightarrow>
      (djapy_allowed_method (djapify cfg vf) = None
       \<or> (\<exists>ms. djapy_allowed_method (djapify cfg vf) = Some (PList ms)))
      \<and> (\<forall>s. djapy_allowed_method (djapify cfg vf) \<noteq> Some (PStr s))"
    by (cases "allowed_method cfg") (simp_all add: djapify_def)
  from str lst unset plain show ?thesis by blast
qed

theorem allowed_method_normalised_witness:
  "allowed_method get_only = PStr ''GET'' \<and> ''GET'' \<noteq> []
   \<and> vf_allowed_method get_user = None
   \<and> djapy_allowed_method (djapify get_only get_user) = Some (PList [PStr ''GET''])
   \<and> djapy_allowed_method
         (djapify (get_only\<lparr>allowed_method := PList [PStr ''GET'', PStr ''POST'']\<rparr>) get_user)
       = Some (PList [PStr ''GET'', PStr ''POST''])
   \<and> djapy_allowed_method (djapify (get_only\<lparr>allowed_method := PStr []\<rparr>) get_user) = None
   \<and> truthy (PInt 5)
   \<and> djapy_allowed_method (djapify (get_only\<lparr>allowed_method := PInt 5\<rparr>) get_user) = None
   \<and> djapy_allowed_method
         (djapify (get_only\<lparr>allowed_method := PInt 5\<rparr>)
            (get_user\<lparr>vf_allowed_method := Some (PList [PStr ''PUT''])\<rparr>))
       = Some (PList [PStr ''PUT''])
   \<and> gate example_env (djapify get_only get_user) (anonymous ''GET'') = None"
proof -
  let ?two = "get_only\<lparr>allowed_method := PList [PStr ''GET'', PStr ''POST'']\<rparr>"
  let ?none = "get_only\<lparr>allowed_method := PStr []\<rparr>"
  let ?five = "get_only\<lparr>allowed_method := PInt 5\<rparr>"
  let ?put = "get_user\<lparr>vf_allowed_method := Some (PList [PStr ''PUT''])\<rparr>"
  have a: "allowed_method get_only = PStr ''GET''" by (simp add: get_only_def)
  have b: "vf_allowed_method get_user = None" by (simp add: get_user_def)
  have c: "djapy_allowed_method (djapify get_only get_user) = Some (PList [PStr ''GET''])"
    using allowed_method_normalised [of get_only get_user] a by simp
  have d: "djapy_allowed_method (djapify ?two get_user) = Some (PList [PStr ''GET'', PStr ''POST''])"
    using allowed_method_normalised [of ?two get_user] by simp
  have e: "djapy_allowed_method (djapify ?none get_user) = None"
    using allowed_method_normalised [of ?none get_user] b by simp
  have f: "djapy_allowed_method (djapify ?five get_user) = None"
    using allowed_method_normalised [of ?five get_user] b by simp
  have g: "djapy_allowed_method (djapify ?five ?put) = Some (PList [PStr ''PUT''])"
    using allowed_method_normalised [of ?five ?put] by simp
  have h: "gate example_env (djapify get_only get_user) (anonymous ''GET'') = None"
    by (simp add: gate_def c anonymous_def djapify_def get_only_def get_user_def)
  from a b c d e f g h show ?thesis by simp
qed

section \<open>The \<open>except\<close> block and the error handlers\<close>

lemma JsonResponse_Inr:
  "JsonResponse d st safe = Inr r \<Longrightarrow> r = Response st d"
  by (auto simp: JsonResponse_def split: if_splits)

lemma handle_error_from_status:
  "handle_error_from E req exc i fs = (Inr (Some r), evs) \<Longrightarrow>
   status_code r = 400 \<or> status_code r = 500"
proof (induction E req exc i fs arbitrary: evs rule: handle_error_from.induct)
  case (1 E req exc i)
  then show ?case by simp
next
  case (2 E req exc i v fs)
  then show ?case by simp
next
  case (3 E req exc i f fs)
  then show ?case
    by (auto split: exception_param.splits if_splits sum.splits prod.splits
        dest!: JsonResponse_Inr simp: map_sum_def)
qed

lemma handle_error_from_no_match:
  "list_all has_exception_param fs \<Longrightarrow> list_all (\<lambda>a. \<not> declares (class_of exc) a) fs \<Longrightarrow>
   handle_error_from E req exc i fs = (Inr None, [])"
proof (induction fs arbitrary: i)
  case Nil
  then show ?case by simp
next
  case (Cons a fs)
  then show ?case
    by (cases a) (auto simp: has_exception_param_def declares_def split: exception_param.splits)
qed

lemma handle_error_from_first_match:
  assumes "list_all has_exception_param pre"
    and "list_all (\<lambda>a. \<not> declares (class_of exc) a) pre"
    and "eh_exception_param f = ExceptionParam (Some (class_of exc))"
    and "eh_call f req exc = Inr (PDict kvs)" and "kvs \<noteq> []" and "serializable (PDict kvs)"
  shows "handle_error_from E req exc i (pre @ Function f # post)
         = (Inr (Some (Response 400 (PDict kvs))), [Called (i + length pre)])"
  using assms(1,2)
proof (induction pre arbitrary: i)
  case Nil
  then show ?case using assms(3-6) by (simp add: JsonResponse_def)
next
  case (Cons a pre)
  then show ?case
    by (cases a) (auto simp: has_exception_param_def declares_def split: exception_param.splits)
qed


lemma except_block_status_pair:
  "except_block E registry req exc = (Inr r, evs) \<Longrightarrow>
   status_code r = 400 \<or> status_code r = 500"
  by (auto simp: except_block_def handle_error_def split: prod.splits sum.splits option.splits
      if_splits dest!: JsonResponse_Inr handle_error_from_status)

lemma except_block_status:
  "fst (except_block E registry req exc) = Inr r \<Longrightarrow>
   status_code r = 400 \<or> status_code r = 500"
  by (cases "except_block E registry req exc") (auto dest: except_block_status_pair)

lemma wrapped_view_raises:
  assumes "gate E w req = None" and "try_body E w req args kw = (Inl exc, evs)"
  shows "wrapped_view E registry w req args kw =
           (fst (except_block E registry req exc), evs @ snd (except_block E registry req exc))"
  using assms by (simp add: wrapped_view_def split: prod.splits)

lemma try_body_missing_status:
  assumes "extract_and_validate_request_params E req (required_params w) kw = Inr data"
    and "vf_body (view_func w) req args data = Inr ret"
    and "schema w = MappingAnn m"
    and "map_of m (fst (unpack ret)) = None"
  shows "try_body E w req args kw = (Inl (Exn AttributeError ''__name__''), [Extracted, Invoked])"
proof -
  have "resolve_response E (MappingAnn m) ret = (Inl (Exn AttributeError ''__name__''), [])"
    using assms(4) by (cases "unpack ret") (simp add: resolve_response_def x_schema_get_def)
  then show ?thesis
    using assms(1-3) by (simp add: try_body_def)
qed

text \<open>
  C3, as stated, fails: for a status that the mapping lacks, the response the code gives
  has the fixed body \<open>DEFAULT_MESSAGE_ERROR\<close>, the same for 403 and for 404, so it does not
  name the status; and with an error handler registered for the class of the exception
  raised the response is that handler's 400, not a 500.
\<close>

theorem missing_status_not_named_counterexample:
  "wrapped_view example_env [] (djapify get_only (status_view 404)) (anonymous ''GET'') [] []
   = (Inr (Response 500
        (PDict [(''message'', PStr ''Something went wrong''), (''alias'', PStr ''server_error'')])),
      [Extracted, Invoked, Logged (Exn AttributeError ''__name__'')])
   \<and> wrapped_view example_env [] (djapify get_only (status_view 403)) (anonymous ''GET'') [] []
     = wrapped_view example_env [] (djapify get_only (status_view 404)) (anonymous ''GET'') [] []
   \<and> fst (wrapped_view example_env [Function handler_attribute_error]
            (djapify get_only (status_view 404)) (anonymous ''GET'') [] [])
     = Inr (Response 400 (PDict [(''message'', PStr ''bad attribute'')]))"
  by (simp add: wrapped_view_def gate_def try_body_def resolve_response_def unpack_def
      x_schema_get_def except_block_def handle_error_def djapify_def get_only_def get_user_def
      status_view_def anonymous_def example_env_def UserSchema_def JsonResponse_def
      handler_attribute_error_def)

text \<open>
  C3, amended. When the view returns a status that is not a key of its response-schema
  mapping, the wrapper never returns a success response: the lookup gives \<open>None\<close>, no
  schema validates or converts the value, an exception is raised inside the \<open>try\<close> and the
  \<open>except\<close> block handles it like any other one, so a response the wrapper returns has
  status 400 or 500.
\<close>

theorem missing_status_is_an_error:
  assumes "gate E w req = None"
    and "extract_and_validate_request_params E req (required_params w) kw = Inr data"
    and "vf_body (view_func w) req args data = Inr ret"
    and "schema w = MappingAnn m"
    and "map_of m (fst (unpack ret)) = None"
  shows "(\<exists>exc. wrapped_view E registry w req args kw =
            (fst (except_block E registry req exc),
             [Extracted, Invoked] @ snd (except_block E registry req exc)))
       \<and> (\<forall>r. fst (wrapped_view E registry w req args kw) = Inr r \<longrightarrow>
              status_code r = 400 \<or> status_code r = 500)"
proof -
  let ?exc = "Exn AttributeError ''__name__''"
  have t: "try_body E w req args kw = (Inl ?exc, [Extracted, Invoked])"
    using assms(2-5) by (rule try_body_missing_status)
  have w: "wrapped_view E registry w req args kw =
           (fst (except_block E registry req ?exc),
            [Extracted, Invoked] @ snd (except_block E registry req ?exc))"
    using wrapped_view_raises [OF assms(1) t] .
  have st: "\<forall>r. fst (wrapped_view E registry w req args kw) = Inr r \<longrightarrow>
              status_code r = 400 \<or> status_code r = 500"
    using except_block_status [of E registry req ?exc] by (simp add: w)
  from w st show ?thesis by blast
qed

theorem missing_status_is_an_error_witness:
  "gate example_env (djapify get_only (status_view 404)) (anonymous ''GET'') = None
   \<and> extract_and_validate_request_params example_env (anonymous ''GET'')
         (required_params (djapify get_only (status_view 404))) [] = Inr []
   \<and> vf_body (view_func (djapify get_only (status_view 404))) (anonymous ''GET'') [] []
       = Inr (RPair 404 (PDict [(''name'', PStr ''ann'')]))
   \<and> schema (djapify get_only (status_view 404)) = MappingAnn [(200, UserSchema)]
   \<and> map_of [(200, UserSchema)] (fst (unpack (RPair 404 (PDict [(''name'', PStr ''ann'')])))) = None
   \<and> fst (wrapped_view example_env [Function handler_attribute_error]
            (djapify get_only (status_view 404)) (anonymous ''GET'') [] [])
       = Inr (Response 400 (PDict [(''message'', PStr ''bad attribute'')]))
   \<and> (status_code (Response 400 (PDict [(''message'', PStr ''bad attribute'')])) = 400
        \<or> status_code (Response 400 (PDict [(''message'', PStr ''bad attribute'')])) = 500)"
proof -
  let ?w = "djapify get_only (status_view 404)"
  let ?ret = "RPair 404 (PDict [(''name'', PStr ''ann'')])"
  let ?r = "Response 400 (PDict [(''message'', PStr ''bad attribute'')])"
  have a: "gate example_env ?w (anonymous ''GET'') = None"
    by (simp add: gate_def djapify_def get_only_def status_view_def get_user_def anonymous_def)
  have b: "extract_and_validate_request_params example_env (anonymous ''GET'')
         (required_params ?w) [] = Inr []"
    by (simp add: example_env_def)
  have c: "vf_body (view_func ?w) (anonymous ''GET'') [] [] = Inr ?ret"
    by (simp add: status_view_def)
  have d: "schema ?w = MappingAnn [(200, UserSchema)]"
    by (simp add: djapify_def status_view_def get_user_def)
  have e: "map_of [(200, UserSchema)] (fst (unpack ?ret)) = None"
    by (simp add: unpack_def)
  have f: "fst (wrapped_view example_env [Function handler_attribute_error] ?w
             (anonymous ''GET'') [] []) = Inr ?r"
    by (simp add: wrapped_view_def gate_def try_body_def resolve_response_def unpack_def
        x_schema_get_def except_block_def handle_error_def djapify_def get_only_def
        get_user_def status_view_def anonymous_def example_env_def UserSchema_def
        JsonResponse_def handler_attribute_error_def getattr_or_def)
  have g: "status_code ?r = 400 \<or> status_code ?r = 500"
    using missing_status_is_an_error [OF a b c d e, of "[Function handler_attribute_error]"] f
    by blast
  from a b c d e f g show ?thesis by blast
qed

text \<open>
  C4, as stated, fails: a \<open>ValidationError\<close> that no entry declares is answered with 400
  and the body \<open>create_json_from_validation_error\<close> makes of it, not with the generic
  500. And the mapping of the first matching entry is not always the body of a 400: an
  empty mapping is passed over, a mapping that cannot be serialised gives the generic 500,
  an earlier entry without a parameter \<open>exception\<close> raises before the matching one is
  reached, and after a first matching entry that returns \<open>None\<close> the loop goes on and a
  second matching entry is invoked too.
\<close>

theorem unregistered_validation_error_counterexample:
  "wrapped_view example_env []
     (djapify get_only
        (get_user\<lparr>vf_body := (\<lambda>req args data. Inl (Exn ValidationError ''name''))\<rparr>))
     (anonymous ''GET'') [] []
   = (Inr (Response 400 (PList [PDict [(''type'', PStr ''name'')]])),
      [Extracted, Invoked, Logged (Exn ValidationError ''name'')])
   \<and> wrapped_view example_env
       [Function (handler_not_found\<lparr>eh_call := (\<lambda>req e. Inr (PDict []))\<rparr>)]
       (djapify get_only find_user) (anonymous ''GET'') [] []
     = (Inr (Response 500
          (PDict [(''message'', PStr ''Something went wrong''),
                  (''alias'', PStr ''server_error'')])),
        [Extracted, Invoked, Logged (Exn (AppError ''NotFoundError'') ''no user''), Called 0])
   \<and> fst (wrapped_view example_env
       [Function (handler_not_found\<lparr>eh_call := (\<lambda>req e. Inr (PDict [(''user'', PObject 7)]))\<rparr>)]
       (djapify get_only find_user) (anonymous ''GET'') [] [])
     = Inr (Response 500
          (PDict [(''message'', PStr ''Something went wrong''),
                  (''alias'', PStr ''server_error'')]))
   \<and> fst (wrapped_view example_env [Function handler_exc, Function handler_not_found]
       (djapify get_only find_user) (anonymous ''GET'') [] [])
     = Inl (Exn AttributeError ''annotation'')
   \<and> wrapped_view example_env
       [Function (handler_not_found\<lparr>eh_call := (\<lambda>req e. Inr PNone)\<rparr>),
        Function (handler_not_found\<lparr>eh_call := (\<lambda>req e. Inr (PDict [(''message'', PStr ''second'')]))\<rparr>)]
       (djapify get_only find_user) (anonymous ''GET'') [] []
     = (Inr (Response 400 (PDict [(''message'', PStr ''second'')])),
        [Extracted, Invoked, Logged (Exn (AppError ''NotFoundError'') ''no user''),
         Called 0, Called 1])"
  by (simp add: wrapped_view_def gate_def try_body_def except_block_def handle_error_def
      djapify_def get_only_def get_user_def find_user_def anonymous_def example_env_def
      JsonResponse_def handler_not_found_def handler_exc_def getattr_or_def)

text \<open>
  C4, amended. For an exception raised by the handler body: when the entries before the
  first one that declares the class of the exception all have a parameter \<open>exception\<close>,
  and that first entry returns a non-empty JSON-serialisable mapping, then it is the only
  entry invoked and its mapping is the body of the 400 response. When every entry has the
  parameter and none declares the class, no entry is invoked and the result is what
  \<open>JsonResponse(DEFAULT_MESSAGE_ERROR, status=500)\<close> gives, the generic 500 response
  whenever that body is a JSON-serialisable dict; except for a \<open>ValidationError\<close>, for
  which it is what \<open>JsonResponse\<close> with status 400 gives for the body
  \<open>create_json_from_validation_error\<close> makes of it, the 400 response with that body
  whenever it is serialisable.
\<close>

theorem error_handler_dispatch:
  assumes "gate E w req = None"
    and "extract_and_validate_request_params E req (required_params w) kw = Inr data"
    and "vf_body (view_func w) req args data = Inl exc"
  shows "(\<forall>pre f post kvs.
            registry = pre @ Function f # post
            \<and> list_all has_exception_param pre
            \<and> list_all (\<lambda>a. \<not> declares (class_of exc) a) pre
            \<and> declares (class_of exc) (Function f)
            \<and> eh_call f req exc = Inr (PDict kvs) \<and> kvs \<noteq> [] \<and> serializable (PDict kvs)
            \<longrightarrow> wrapped_view E registry w req args kw =
                  (Inr (Response 400 (PDict kvs)),
                   [Extracted, Invoked, Logged exc, Called (length pre)]))
       \<and> (list_all has_exception_param registry
            \<and> list_all (\<lambda>a. \<not> declares (class_of exc) a) registry
            \<longrightarrow> wrapped_view E registry w req args kw =
                  (if class_of exc = ValidationError
                   then JsonResponse (create_json_from_validation_error E exc) 400 False
                   else JsonResponse (DEFAULT_MESSAGE_ERROR E) 500 True,
                   [Extracted, Invoked, Logged exc]))
       \<and> (list_all has_exception_param registry
            \<and> list_all (\<lambda>a. \<not> declares (class_of exc) a) registry
            \<and> class_of exc \<noteq> ValidationError
            \<and> is_dict (DEFAULT_MESSAGE_ERROR E) \<and> serializable (DEFAULT_MESSAGE_ERROR E)
            \<longrightarrow> wrapped_view E registry w req args kw =
                  (Inr (Response 500 (DEFAULT_MESSAGE_ERROR E)),
                   [Extracted, Invoked, Logged exc]))
       \<and> (list_all has_exception_param registry
            \<and> list_all (\<lambda>a. \<not> declares (class_of exc) a) registry
            \<and> class_of exc = ValidationError
            \<and> serializable (create_json_from_validation_error E exc)
            \<longrightarrow> wrapped_view E registry w req args kw =
                  (Inr (Response 400 (create_json_from_validation_error E exc)),
                   [Extracted, Invoked, Logged exc]))"
proof -
  have t: "try_body E w req args kw = (Inl exc, [Extracted, Invoked])"
    using assms(2,3) by (simp add: try_body_def)
  have w: "wrapped_view E registry w req args kw =
           (fst (except_block E registry req exc),
            [Extracted, Invoked] @ snd (except_block E registry req exc))"
    using wrapped_view_raises [OF assms(1) t] .
  have first: "wrapped_view E registry w req args kw =
                  (Inr (Response 400 (PDict kvs)),
                   [Extracted, Invoked, Logged exc, Called (length pre)])"
    if "registry = pre @ Function f # post" and "list_all has_exception_param pre"
      and "list_all (\<lambda>a. \<not> declares (class_of exc) a) pre"
      and "declares (class_of exc) (Function f)"
      and "eh_call f req exc = Inr (PDict kvs)" and "kvs \<noteq> []" and "serializable (PDict kvs)"
    for pre f post kvs
  proof -
    have "eh_exception_param f = ExceptionParam (Some (class_of exc))"
      using that(4) by (simp add: declares_def)
    then have "handle_error E registry req exc =
        (Inr (Some (Response 400 (PDict kvs))), [Called (0 + length pre)])"
      unfolding handle_error_def that(1)
      using that(2,3,5,6,7) by (intro handle_error_from_first_match)
    then have "except_block E registry req exc =
        (Inr (Response 400 (PDict kvs)), [Logged exc, Called (length pre)])"
      by (simp add: except_block_def)
    then show ?thesis by (simp add: w)
  qed
  have none: "wrapped_view E registry w req args kw =
                  (if class_of exc = ValidationError
                   then JsonResponse (create_json_from_validation_error E exc) 400 False
                   else JsonResponse (DEFAULT_MESSAGE_ERROR E) 500 True,
                   [Extracted, Invoked, Logged exc])"
    if "list_all has_exception_param registry"
      and "list_all (\<lambda>a. \<not> declares (class_of exc) a) registry"
  proof -
    have "handle_error E registry req exc = (Inr None, [])"
      unfolding handle_error_def using that by (rule handle_error_from_no_match)
    then have "except_block E registry req exc =
        (if class_of exc = ValidationError
         then JsonResponse (create_json_from_validation_error E exc) 400 False
         else JsonResponse (DEFAULT_MESSAGE_ERROR E) 500 True, [Logged exc])"
      by (simp add: except_block_def)
    then show ?thesis by (simp add: w)
  qed
  have generic: "wrapped_view E registry w req args kw =
                  (Inr (Response 500 (DEFAULT_MESSAGE_ERROR E)), [Extracted, Invoked, Logged exc])"
    if "list_all has_exception_param registry"
      and "list_all (\<lambda>a. \<not> declares (class_of exc) a) registry"
      and "class_of exc \<noteq> ValidationError"
      and "is_dict (DEFAULT_MESSAGE_ERROR E)" and "serializable (DEFAULT_MESSAGE_ERROR E)"
    using none [OF that(1,2)] that(3-5) by (simp add: JsonResponse_def)
  have validation: "wrapped_view E registry w req args kw =
                  (Inr (Response 400 (create_json_from_validation_error E exc)),
                   [Extracted, Invoked, Logged exc])"
    if "list_all has_exception_param registry"
      and "list_all (\<lambda>a. \<not> declares (class_of exc) a) registry"
      and "class_of exc = ValidationError"
      and "serializable (create_json_from_validation_error E exc)"
    using none [OF that(1,2)] that(3,4) by (simp add: JsonResponse_def)
  show ?thesis
  proof (intro conjI allI impI, goal_cases)
    case (1 pre f post kvs)
    then show ?case by (elim conjE) (rule first; assumption)
  next
    case 2
    then show ?case by (elim conjE) (rule none; assumption)
  next
    case 3
    then show ?case by (elim conjE) (rule generic; assumption)
  next
    case 4
    then show ?case by (elim conjE) (rule validation; assumption)
  qed
qed

theorem error_handler_dispatch_witness:
  "gate example_env (djapify get_only find_user) (anonymous ''GET'') = None
   \<and> extract_and_validate_request_params example_env (anonymous ''GET'')
         (required_params (djapify get_only find_user)) [] = Inr []
   \<and> vf_body (view_func (djapify get_only find_user)) (anonymous ''GET'') [] []
       = Inl (Exn (AppError ''NotFoundError'') ''no user'')
   \<and> fst (load_errorhandlers (Some errorhandler_module)) = [] @ Function handler_not_found # []
   \<and> declares (AppError ''NotFoundError'') (Function handler_not_found)
   \<and> wrapped_view example_env (fst (load_errorhandlers (Some errorhandler_module)))
         (djapify get_only find_user) (anonymous ''GET'') [] []
       = (Inr (Response 400 (PDict [(''message'', PStr ''not found'')])),
          [Extracted, Invoked, Logged (Exn (AppError ''NotFoundError'') ''no user''), Called 0])
   \<and> list_all has_exception_param [Function handler_attribute_error]
   \<and> list_all (\<lambda>a. \<not> declares (AppError ''NotFoundError'') a) [Function handler_attribute_error]
   \<and> AppError ''NotFoundError'' \<noteq> ValidationError
   \<and> is_dict (DEFAULT_MESSAGE_ERROR example_env)
   \<and> serializable (DEFAULT_MESSAGE_ERROR example_env)
   \<and> wrapped_view example_env [Function handler_attribute_error]
         (djapify get_only find_user) (anonymous ''GET'') [] []
       = (Inr (Response 500
            (PDict [(''message'', PStr ''Something went wrong''),
                    (''alias'', PStr ''server_error'')])),
          [Extracted, Invoked, Logged (Exn (AppError ''NotFoundError'') ''no user'')])"
proof -
  let ?w = "djapify get_only find_user"
  let ?exc = "Exn (AppError ''NotFoundError'') ''no user''"
  let ?reg = "fst (load_errorhandlers (Some errorhandler_module))"
  let ?other = "[Function handler_attribute_error]"
  have a: "gate example_env ?w (anonymous ''GET'') = None"
    by (simp add: gate_def djapify_def get_only_def find_user_def get_user_def anonymous_def)
  have b: "extract_and_validate_request_params example_env (anonymous ''GET'')
         (required_params ?w) [] = Inr []"
    by (simp add: example_env_def)
  have c: "vf_body (view_func ?w) (anonymous ''GET'') [] [] = Inl ?exc"
    by (simp add: find_user_def)
  have d: "?reg = [] @ Function handler_not_found # []"
    by (simp add: load_errorhandlers_def errorhandler_module_def startswith_def)
  have e: "declares (AppError ''NotFoundError'') (Function handler_not_found)"
    by (simp add: declares_def handler_not_found_def)
  have f: "eh_call handler_not_found (anonymous ''GET'') ?exc
      = Inr (PDict [(''message'', PStr ''not found'')])"
    by (simp add: handler_not_found_def)
  have g: "wrapped_view example_env ?reg ?w (anonymous ''GET'') [] []
       = (Inr (Response 400 (PDict [(''message'', PStr ''not found'')])),
          [Extracted, Invoked, Logged ?exc, Called (length ([] :: module_attr list))])"
    using error_handler_dispatch [OF a b c, of ?reg, THEN conjunct1, rule_format,
            of "[]" handler_not_found "[]" "[(''message'', PStr ''not found'')]"] d e f
    by simp
  have h: "list_all has_exception_param ?other"
    by (simp add: has_exception_param_def handler_attribute_error_def)
  have i: "list_all (\<lambda>a. \<not> declares (AppError ''NotFoundError'') a) ?other"
    by (simp add: declares_def handler_attribute_error_def)
  have j: "DEFAULT_MESSAGE_ERROR example_env
      = PDict [(''message'', PStr ''Something went wrong''), (''alias'', PStr ''server_error'')]"
    by (simp add: example_env_def)
  have l: "is_dict (DEFAULT_MESSAGE_ERROR example_env)"
    and m: "serializable (DEFAULT_MESSAGE_ERROR example_env)"
    by (simp_all add: j)
  have n: "class_of ?exc \<noteq> ValidationError" by simp
  have k: "wrapped_view example_env ?other ?w (anonymous ''GET'') [] []
       = (Inr (Response 500 (DEFAULT_MESSAGE_ERROR example_env)),
          [Extracted, Invoked, Logged ?exc])"
    by (rule mp [OF error_handler_dispatch
          [OF a b c, of ?other, THEN conjunct2, THEN conjunct2, THEN conjunct1]])
       (insert h i l m, simp)
  have o: "wrapped_view example_env ?other ?w (anonymous ''GET'') [] []
       = (Inr (Response 500
            (PDict [(''message'', PStr ''Something went wrong''),
                    (''alias'', PStr ''server_error'')])),
          [Extracted, Invoked, Logged ?exc])"
    using k by (simp only: j)
  have p: "AppError ''NotFoundError'' \<noteq> ValidationError" by simp
  show ?thesis
    by (intro conjI a b c d e g [simplified] h i p l m o)
qed

section \<open>Loading the error handlers\<close>

lemma load_errorhandlers_warning:
  "snd (load_errorhandlers (Some m)) \<longleftrightarrow> length m > MAX_HANDLER_COUNT"
  by (simp add: load_errorhandlers_def)

lemma handle_error_empty: "handle_error E [] req exc = (Inr None, [])"
  by (simp add: handle_error_def)

text \<open>
  C5. In \<^verbatim>\<open>v2/dec.py\<close> a failed import leaves the registry empty, warns of nothing, and
  every lookup in the empty registry is \<open>None\<close>. In \<^verbatim>\<open>data/dec2.py\<close> the import is
  guarded in the same way, but the \<open>print(getattr(_imported_errorhandler, 'handler'))\<close> that
  follows raises AttributeError on the \<open>None\<close> the guard leaves: \<open>djapify\<close> raises for
  every configuration.
\<close>

theorem absent_module_v2_empty_data_raises:
  "load_errorhandlers None = ([], False)
   \<and> handle_error E (fst (load_errorhandlers None)) req exc = (Inr None, [])
   \<and> data_djapify None cfg = Inl (Exn AttributeError ''handler'')"
  by (simp add: load_errorhandlers_def handle_error_def data_djapify_def getattr_module_def)

text \<open>
  C6. The warning is decided by the number of names \<open>dir\<close> lists for the module, not by
  the number of handlers registered: a module with one handler function, which is not more
  than \<open>MAX_HANDLER_COUNT\<close>, is warned about, since its nine names are more than one.
\<close>

theorem warning_counts_module_names:
  "snd (load_errorhandlers (Some errorhandler_module)) = True
   \<and> fst (load_errorhandlers (Some errorhandler_module)) = [Function handler_not_found]
   \<and> \<not> length (fst (load_errorhandlers (Some errorhandler_module))) > MAX_HANDLER_COUNT"
  by (simp add: load_errorhandlers_def errorhandler_module_def startswith_def
      MAX_HANDLER_COUNT_def)

section \<open>A bare return annotation\<close>

lemma bare_annotation_raises:
  assumes "extract_and_validate_request_params E req (required_params w) kw = Inr data"
    and "vf_body (view_func w) req args data = Inr ret"
    and "schema w = BareAnn t"
  shows "try_body E w req args kw = (Inl (bare_attribute_error t ''get''), [Extracted, Invoked])"
proof -
  have "resolve_response E (BareAnn t) ret = (Inl (bare_attribute_error t ''get''), [])"
    by (cases "unpack ret") (simp add: resolve_response_def x_schema_get_def)
  then show ?thesis using assms by (simp add: try_body_def)
qed


lemma data_djapify_bare:
  "data_djapify imported (cfg\<lparr>schema_or_view_func := OtherArg t\<rparr>)
   = data_djapify imported (cfg\<lparr>schema_or_view_func := DictArg [(200, t)]\<rparr>)"
  by (cases "getattr_module imported ''handler''") (simp_all add: data_djapify_def cong: if_cong)

text \<open>
  C7. \<^verbatim>\<open>dec2.py\<close> turns a schema that is not a dict into \<open>{200: schema}\<close>;
  \<^verbatim>\<open>v2/dec.py\<close> does not. With the bare annotation \<open>-> UserSchema\<close> the lookup
  \<open>x_schema.get(status, None)\<close> raises AttributeError inside the \<open>try\<close>, and the request
  that the annotation \<open>{200: UserSchema}\<close> answers with 200 and the validated value is
  answered with the generic 500.
\<close>

theorem bare_annotation_is_500:
  "wrapped_view example_env [] (djapify get_only (get_user\<lparr>vf_return := BareAnn UserSchema\<rparr>))
     (anonymous ''GET'') [] []
   = (Inr (Response 500
        (PDict [(''message'', PStr ''Something went wrong''), (''alias'', PStr ''server_error'')])),
      [Extracted, Invoked, Logged (Exn AttributeError ''get'')])
   \<and> wrapped_view example_env []
       (djapify get_only (get_user\<lparr>vf_return := MappingAnn [(200, UserSchema)]\<rparr>))
       (anonymous ''GET'') [] []
     = (Inr (Response 200 (PDict [(''name'', PStr ''ann'')])), [Extracted, Invoked, Validated])"
  by (simp add: wrapped_view_def gate_def try_body_def resolve_response_def unpack_def
      x_schema_get_def except_block_def handle_error_def djapify_def get_only_def get_user_def
      anonymous_def example_env_def UserSchema_def JsonResponse_def bare_attribute_error_def
      is_dict_class_def getattr_or_def)

section \<open>Exceptions that leave the wrapper\<close>

text \<open>
  What \<^verbatim>\<open>v2/dec.py\<close> achieves by putting extraction, the call and the response
  inside one \<open>try\<close>: when every registered entry is a function with a parameter
  \<open>exception\<close> that does not raise, the default error body is a JSON-serialisable dict,
  the validation-error body is serialisable and the early returns build their responses,
  the wrapper returns a response for every request, whatever the extractor, the view and
  the schemas do.
\<close>

lemma JsonResponse_total:
  "is_dict d \<or> \<not> safe \<Longrightarrow> serializable d \<Longrightarrow> 100 \<le> st \<Longrightarrow> st \<le> 599 \<Longrightarrow>
   JsonResponse d st safe = Inr (Response st d)"
  by (auto simp: JsonResponse_def)

lemma JsonResponse_400_raises:
  "JsonResponse d 400 safe = Inl e \<Longrightarrow> class_of e = TypeError"
  by (auto simp: JsonResponse_def split: if_splits)

lemma handle_error_from_total:
  assumes "\<forall>a \<in> set fs. \<exists>f. a = Function f \<and> eh_exception_param f \<noteq> NoExceptionParam
               \<and> (\<exists>d. eh_call f req exc = Inr d)"
    and "is_dict (DEFAULT_MESSAGE_ERROR E)" and "serializable (DEFAULT_MESSAGE_ERROR E)"
  shows "\<exists>x. fst (handle_error_from E req exc i fs) = Inr x"
  using assms(1)
proof (induction fs arbitrary: i)
  case Nil
  then show ?case by simp
next
  case (Cons a fs)
  then obtain f d where a: "a = Function f" and p: "eh_exception_param f \<noteq> NoExceptionParam"
    and c: "eh_call f req exc = Inr d" by auto
  obtain ann where ann: "eh_exception_param f = ExceptionParam ann"
    using p by (cases "eh_exception_param f") auto
  have ih: "\<exists>x. fst (handle_error_from E req exc (Suc i) fs) = Inr x"
    using Cons by simp
  have d500: "JsonResponse (DEFAULT_MESSAGE_ERROR E) 500 True
      = Inr (Response 500 (DEFAULT_MESSAGE_ERROR E))"
    using assms(2,3) by (simp add: JsonResponse_total)
  show ?case
    using ih by (auto simp: a ann c d500 split_beta split: sum.splits dest: JsonResponse_400_raises)
qed

lemma except_block_total:
  assumes "\<forall>a \<in> set registry. \<exists>f. a = Function f \<and> eh_exception_param f \<noteq> NoExceptionParam
               \<and> (\<exists>d. eh_call f req exc = Inr d)"
    and "is_dict (DEFAULT_MESSAGE_ERROR E)" and "serializable (DEFAULT_MESSAGE_ERROR E)"
    and "serializable (create_json_from_validation_error E exc)"
  shows "\<exists>r. fst (except_block E registry req exc) = Inr r"
proof -
  obtain x where x: "fst (handle_error_from E req exc 0 registry) = Inr x"
    using handle_error_from_total [OF assms(1-3)] by blast
  then obtain evs where h: "handle_error E registry req exc = (Inr x, evs)"
    by (cases "handle_error_from E req exc 0 registry") (simp add: handle_error_def)
  show ?thesis
    using assms(2-4)
    by (cases x) (simp_all add: except_block_def h JsonResponse_total)
qed

lemma wrapped_view_total:
  assumes "\<forall>a \<in> set registry. \<exists>f. a = Function f \<and> eh_exception_param f \<noteq> NoExceptionParam
               \<and> (\<forall>exc. \<exists>d. eh_call f req exc = Inr d)"
    and "is_dict (DEFAULT_MESSAGE_ERROR E)" and "serializable (DEFAULT_MESSAGE_ERROR E)"
    and "\<forall>exc. serializable (create_json_from_validation_error E exc)"
    and "\<forall>r. gate E w req \<noteq> Some (Inl r)"
  shows "\<exists>r. fst (wrapped_view E registry w req args kw) = Inr r"
proof (cases "gate E w req")
  case (Some g)
  then show ?thesis using assms(5) by (cases g) (simp_all add: wrapped_view_def)
next
  case None
  obtain t evs where t: "try_body E w req args kw = (t, evs)" by (cases "try_body E w req args kw")
  show ?thesis
  proof (cases t)
    case (Inr r)
    then show ?thesis using None t by (simp add: wrapped_view_def)
  next
    case (Inl exc)
    have "\<exists>r. fst (except_block E registry req exc) = Inr r"
      using assms(1-4) by (intro except_block_total) auto
    then show ?thesis using None t Inl by (auto simp: wrapped_view_def split_beta)
  qed
qed

text \<open>
  C9. In \<^verbatim>\<open>dec2.py\<close> the response is built after the two \<open>try\<close> blocks: for
  \<open>@djapify(int)\<close> on a view that returns \<open>"abc"\<close>, the \<open>ValueError\<close> of \<open>int("abc")\<close>
  leaves the wrapper. In \<^verbatim>\<open>v2/dec.py\<close> everything is inside the \<open>try\<close>, but
  \<open>handle_error\<close> runs in the \<open>except\<close> block: with a registered handler that has no
  parameter named \<open>exception\<close>, the AttributeError of \<open>exception_param.annotation\<close> leaves the
  wrapper for any exception of the view.
\<close>

theorem exceptions_escape_the_wrapper:
  "(case data_djapify (Some [(''handler'', NotCallable PNone)]) int_config of
      Inl e \<Rightarrow> None
    | Inr decorator \<Rightarrow>
        Some (data_wrapped_view example_data_env (decorator count_view) (anonymous ''GET'') [] []))
   = Some (Inl (Exn ValueError ''invalid literal for int()''))
   \<and> fst (wrapped_view example_env [Function handler_exc] (djapify get_only find_user)
            (anonymous ''GET'') [] [])
     = Inl (Exn AttributeError ''annotation'')"
  by (simp add: data_djapify_def getattr_module_def int_config_def data_wrapped_view_def
      call_view_def getattr_or_def count_view_def get_user_def example_data_env_def anonymous_def int_class_def
      get_required_params_def request_parameter_def
      wrapped_view_def gate_def try_body_def except_block_def handle_error_def djapify_def
      get_only_def find_user_def example_env_def handler_exc_def)

section \<open>The API document\<close>

subsection \<open>Assignments to a dict\<close>

lemma keys_setitem: "fst ` set (setitem d k v) = insert k (fst ` set d)"
  by (induction d) auto

lemma keys_setitem_same: "k \<in> fst ` set d \<Longrightarrow> map fst (setitem d k v) = map fst d"
  by (induction d) auto

lemma distinct_setitem: "distinct (map fst d) \<Longrightarrow> distinct (map fst (setitem d k v))"
proof (induction d)
  case Nil
  then show ?case by simp
next
  case (Cons p d)
  show ?case
  proof (cases "fst p = k")
    case True
    then show ?thesis using Cons.prems by simp
  next
    case False
    then show ?thesis using Cons by (simp add: keys_setitem)
  qed
qed

lemma map_of_setitem: "map_of (setitem d k v) = (map_of d)(k \<mapsto> v)"
  by (induction d) (auto simp: fun_eq_iff)

lemma distinct_dict_update:
  "distinct (map fst d) \<Longrightarrow> distinct (map fst (dict_update d us))"
  unfolding dict_update_def
  by (induction us arbitrary: d) (simp_all add: distinct_setitem)

lemma keys_dict_update:
  "fst ` set (dict_update d us) = fst ` set d \<union> fst ` set us"
  unfolding dict_update_def
  by (induction us arbitrary: d) (simp_all add: keys_setitem)

lemma keys_dict_update_same:
  "fst ` set us \<subseteq> fst ` set d \<Longrightarrow> map fst (dict_update d us) = map fst d"
  unfolding dict_update_def
proof (induction us arbitrary: d)
  case Nil
  then show ?case by simp
next
  case (Cons u us)
  have k: "fst u \<in> fst ` set d" using Cons.prems by simp
  have "fst ` set us \<subseteq> fst ` set (setitem d (fst u) (snd u))"
    using Cons.prems by (auto simp: keys_setitem)
  then have "map fst (fold (\<lambda>kv acc. setitem acc (fst kv) (snd kv)) us
                (setitem d (fst u) (snd u))) = map fst (setitem d (fst u) (snd u))"
    by (rule Cons.IH)
  then show ?case using k by (simp add: keys_setitem_same)
qed

lemma map_of_dict_update:
  "map_of (dict_update d us) = map_of d ++ map_of (rev us)"
  unfolding dict_update_def
proof (induction us arbitrary: d)
  case Nil
  then show ?case by simp
next
  case (Cons u us)
  show ?case
    by (cases u) (simp add: Cons.IH map_of_setitem fun_eq_iff map_add_def split: option.splits)
qed

lemma dict_eqI:
  "map fst xs = map fst ys \<Longrightarrow> map_of xs = map_of ys \<Longrightarrow> distinct (map fst xs) \<Longrightarrow> xs = ys"
proof (induction xs arbitrary: ys)
  case Nil
  then show ?case by simp
next
  case (Cons x xs)
  obtain y ys' where ys: "ys = y # ys'" using Cons.prems(1) by (cases ys) auto
  have k: "fst x = fst y" and keys: "map fst xs = map fst ys'"
    using Cons.prems(1) ys by auto
  have "map_of (x # xs) (fst x) = map_of ys (fst x)"
    using fun_cong [OF Cons.prems(2), of "fst x"] .
  then have v: "snd x = snd y" using ys k by (cases x; cases y) auto
  have nx: "fst x \<notin> fst ` set xs" using Cons.prems(3) by simp
  have ny: "fst x \<notin> fst ` set ys'" using nx keys by (metis set_map)
  have "map_of xs = map_of ys'"
  proof
    fix a
    show "map_of xs a = map_of ys' a"
    proof (cases "a = fst x")
      case True
      have "map_of xs a = None" using nx True by (simp add: map_of_eq_None_iff)
      moreover have "map_of ys' a = None" using ny True by (simp add: map_of_eq_None_iff)
      ultimately show ?thesis by simp
    next
      case False
      have "map_of (x # xs) a = map_of (y # ys') a"
        using fun_cong [OF Cons.prems(2), of a] ys by simp
      then show ?thesis using False k by (cases x; cases y) auto
    qed
  qed
  then have "xs = ys'" using Cons.IH keys Cons.prems(3) by simp
  then show ?case using ys k v by (cases x; cases y) auto
qed

lemma dict_update_twice:
  assumes "distinct (map fst d)"
  shows "dict_update (dict_update d us) us = dict_update d us"
proof (rule dict_eqI)
  show "map fst (dict_update (dict_update d us) us) = map fst (dict_update d us)"
    by (rule keys_dict_update_same) (simp add: keys_dict_update)
  show "map_of (dict_update (dict_update d us) us) = map_of (dict_update d us)"
    by (simp add: map_of_dict_update fun_eq_iff map_add_def split: option.splits)
  show "distinct (map fst (dict_update (dict_update d us) us))"
    using assms by (intro distinct_dict_update)
qed


subsection \<open>The walk as a list of writes\<close>

lemma fold_apply_write_paths:
  "paths (fold apply_write ws s) = dict_update (paths s) (writes_to Paths ws)"
  unfolding dict_update_def writes_to_def
  by (induction ws arbitrary: s) (auto simp: apply_write_def split: target.splits)

lemma fold_apply_write_schemas:
  "components_schemas (fold apply_write ws s)
   = dict_update (components_schemas s) (writes_to Schemas ws)"
  unfolding dict_update_def writes_to_def
  by (induction ws arbitrary: s) (auto simp: apply_write_def split: target.splits)

lemma fold_apply_write_definitions:
  "definitions (fold apply_write ws s) = dict_update (definitions s) (writes_to Definitions ws)"
  unfolding dict_update_def writes_to_def
  by (induction ws arbitrary: s) (auto simp: apply_write_def split: target.splits)

lemma fold_apply_write_twice:
  assumes "valid_state s"
  shows "fold apply_write ws (fold apply_write ws s) = fold apply_write ws s"
  using assms
  by (intro openapi_state.equality)
     (simp_all add: fold_apply_write_paths fold_apply_write_schemas
        fold_apply_write_definitions dict_update_twice valid_state_def)

lemma fold_schemas_writes:
  "fold apply_write (map (Pair Schemas) us) s
   = s\<lparr>components_schemas := dict_update (components_schemas s) us\<rparr>"
  unfolding dict_update_def
  by (induction us arbitrary: s) (simp_all add: apply_write_def split_beta)

lemma fold_definitions_writes:
  "fold apply_write (map (Pair Definitions) us) s
   = s\<lparr>definitions := dict_update (definitions s) us\<rparr>"
  unfolding dict_update_def
  by (induction us arbitrary: s) (simp_all add: apply_write_def split_beta)

lemma dict_update_Nil [simp]: "dict_update d [] = d"
  by (simp add: dict_update_def)

lemma apply_write_Paths:
  "apply_write (Paths, k, v) s = s\<lparr>paths := setitem (paths s) k v\<rparr>"
  by (simp add: apply_write_def)

lemma generate_paths_writes:
  "generate_paths cap ns s
     = (fst (walk_writes cap ns), fold apply_write (snd (walk_writes cap ns)) s)"
  "generate_path cap n s
     = (fst (node_writes cap n), fold apply_write (snd (node_writes cap n)) s)"
proof (induction cap ns s and cap n s rule: generate_paths_generate_path.induct)
  case (1 cap s)
  then show ?case by simp
next
  case (2 cap n ns s)
  show ?case
  proof (cases "fst (node_writes cap n)")
    case None
    then show ?thesis
      using 2 by (simp add: split_beta)
  next
    case (Some e)
    then show ?thesis
      using 2 by (simp add: split_beta)
  qed
next
  case (3 cap ns s)
  then show ?case by simp
next
  case (4 cap pattern s)
  then show ?case by simp
next
  case (5 cap pattern callback s)
  show ?case
    by (auto simp: fold_schemas_writes fold_definitions_writes apply_write_Paths Let_def
        split: option.splits sum.splits)
qed

text \<open>
  C8. Generating the document a second time, on the class attributes as the first
  generation left them and against the same routing tree, gives what the first generation
  gave: the same document, with the same \<open>paths\<close> and the same component schemas (or the
  same exception), and the attributes are left as they were. The second generation walks
  the tree afresh and assigns every key again, to the same value.
\<close>

theorem document_generated_twice:
  assumes "valid_state s"
  shows "openapi_dict cap url_patterns (snd (openapi_dict cap url_patterns s))
         = openapi_dict cap url_patterns s"
proof -
  let ?ws = "snd (walk_writes cap url_patterns)"
  let ?s1 = "fold apply_write ?ws s"
  have g: "generate_paths cap url_patterns s = (fst (walk_writes cap url_patterns), ?s1)"
    by (rule generate_paths_writes)
  have s1: "snd (openapi_dict cap url_patterns s) = ?s1"
    by (simp add: openapi_dict_def g split: option.splits)
  have "generate_paths cap url_patterns ?s1
        = (fst (walk_writes cap url_patterns), fold apply_write ?ws ?s1)"
    by (rule generate_paths_writes)
  then have "generate_paths cap url_patterns ?s1 = generate_paths cap url_patterns s"
    using assms by (simp add: g fold_apply_write_twice)
  then have "openapi_dict cap url_patterns ?s1 = openapi_dict cap url_patterns s"
    by (simp add: openapi_dict_def)
  then show ?thesis
    by (simp only: s1)
qed


theorem document_generated_twice_witness:
  "valid_state initial_state
   \<and> openapi_dict example_cap example_urls
         (snd (openapi_dict example_cap example_urls initial_state))
       = openapi_dict example_cap example_urls initial_state
   \<and> map fst (paths (snd (openapi_dict example_cap example_urls initial_state)))
       = [''users/{id}/'', ''users/'']
   \<and> map fst (components_schemas (snd (openapi_dict example_cap example_urls initial_state)))
       = [''UserSchema'']"
proof -
  have v: "valid_state initial_state"
    by (simp add: valid_state_def initial_state_def)
  have p: "map fst (paths (snd (openapi_dict example_cap example_urls initial_state)))
       = [''users/{id}/'', ''users/'']"
    by code_simp
  have c: "map fst (components_schemas (snd (openapi_dict example_cap example_urls initial_state)))
       = [''UserSchema'']"
    by code_simp
  from v p c document_generated_twice [OF v, of example_cap example_urls]
  show ?thesis by blast
qed

end
